theory Spec2Isabelle
  imports Complex_Main "HOL-Library.Word"
begin

unbundle bit_operations_syntax

section \<open>The image validation function (validate-face-image/index.ts)\<close>

subsection \<open>Constants\<close>

type_synonym byte = "8 word"
type_synonym int32 = "32 word"

definition MAX_FILE_SIZE :: nat where
  "MAX_FILE_SIZE = 5 * 1024 * 1024"

definition MIN_DIMENSION :: int where
  "MIN_DIMENSION = 100"

definition MAX_DIMENSION :: int where
  "MAX_DIMENSION = 4000"

definition MAX_UPLOADS_PER_DAY :: nat where
  "MAX_UPLOADS_PER_DAY = 20"

datatype format = jpeg | png | webp

text \<open>The entries of \<open>MAGIC_BYTES\<close> in the order \<open>Object.entries\<close> lists them.\<close>

definition MAGIC_BYTES :: "(format \<times> byte list) list" where
  "MAGIC_BYTES =
     [(jpeg, [0xFF, 0xD8, 0xFF]),
      (png, [0x89, 0x50, 0x4E, 0x47]),
      (webp, [0x52, 0x49, 0x46, 0x46])]"

subsection \<open>Reading a Uint8Array\<close>

text \<open>
  \<open>bytes[i]\<close> on a \<open>Uint8Array\<close> is the byte at \<open>i\<close>, or \<open>undefined\<close> (here \<open>None\<close>)
  when \<open>i\<close> is not below the length.
\<close>

definition byte_at :: "byte list \<Rightarrow> nat \<Rightarrow> byte option" where
  "byte_at bytes i = (if i < length bytes then Some (bytes ! i) else None)"

text \<open>
  The operands of \<open><<\<close> and \<open>|\<close> are converted with ToInt32: a byte is its value,
  \<open>undefined\<close> is 0. The results are 32-bit two's complement integers, read with \<open>sint\<close>.
\<close>

definition ToInt32 :: "byte option \<Rightarrow> int32" where
  "ToInt32 v = (case v of None \<Rightarrow> 0 | Some b \<Rightarrow> ucast b)"

text \<open>\<open>(bytes[i] << 8) | bytes[i + 1]\<close>\<close>

definition be16 :: "byte list \<Rightarrow> nat \<Rightarrow> int32" where
  "be16 bytes i = push_bit 8 (ToInt32 (byte_at bytes i)) OR ToInt32 (byte_at bytes (i + 1))"

text \<open>\<open>(bytes[i] << 24) | (bytes[i + 1] << 16) | (bytes[i + 2] << 8) | bytes[i + 3]\<close>\<close>

definition be32 :: "byte list \<Rightarrow> nat \<Rightarrow> int32" where
  "be32 bytes i =
     push_bit 24 (ToInt32 (byte_at bytes i)) OR push_bit 16 (ToInt32 (byte_at bytes (i + 1)))
       OR push_bit 8 (ToInt32 (byte_at bytes (i + 2))) OR ToInt32 (byte_at bytes (i + 3))"

subsection \<open>Errors\<close>

text \<open>
  One constructor for each \<open>throw new Error(...)\<close> of the handler, in the order of the
  source; \<open>Thrown\<close> is an exception raised by \<open>atob\<close>, with the message it carries.
\<close>

datatype error =
    MissingAuthorizationHeader
  | Unauthorized
  | CannotUploadForAnotherUser
  | UploadLimitExceeded
  | InvalidImageDataFormat
  | Thrown string
  | FileTooLarge
  | FileTooSmall
  | InvalidImageFormat
  | ImageTooSmall
  | ImageTooLarge

fun message :: "error \<Rightarrow> string" where
  "message MissingAuthorizationHeader = ''Missing authorization header''"
| "message Unauthorized = ''Unauthorized''"
| "message CannotUploadForAnotherUser = ''Unauthorized: Cannot upload for another user''"
| "message UploadLimitExceeded = ''Upload limit exceeded. Maximum 20 photos allowed.''"
| "message InvalidImageDataFormat = ''Invalid image data format''"
| "message (Thrown m) = m"
| "message FileTooLarge = ''File too large. Maximum size: 5MB''"
| "message FileTooSmall = ''File too small. Minimum size: 1KB''"
| "message InvalidImageFormat = ''Invalid image format. Only JPEG, PNG, and WebP are allowed.''"
| "message ImageTooSmall = ''Image too small. Minimum dimensions: 100x100''"
| "message ImageTooLarge = ''Image too large. Maximum dimensions: 4000x4000''"

subsection \<open>Magic bytes\<close>

text \<open>\<open>magic.every((byte, i) => bytes[i] === byte)\<close>\<close>

definition every_magic :: "byte list \<Rightarrow> byte list \<Rightarrow> bool" where
  "every_magic bytes magic =
     list_all (\<lambda>(byte, i). byte_at bytes i = Some byte) (zip magic [0 ..< length magic])"

text \<open>
  The loop over the entries: the first entry whose magic bytes all match sets
  \<open>detectedFormat\<close> and breaks; \<open>None\<close> is \<open>validFormat = false\<close>.
\<close>

fun detect :: "byte list \<Rightarrow> (format \<times> byte list) list \<Rightarrow> format option" where
  "detect bytes [] = None"
| "detect bytes ((fmt, magic) # entries) =
     (if every_magic bytes magic then Some fmt else detect bytes entries)"

subsection \<open>Dimensions\<close>

text \<open>The two checks made on an extracted width and height, in the order of the source.\<close>

definition check_dimensions :: "int \<Rightarrow> int \<Rightarrow> error + unit" where
  "check_dimensions width height =
     (if width < MIN_DIMENSION \<or> height < MIN_DIMENSION then Inl ImageTooSmall
      else if width > MAX_DIMENSION \<or> height > MAX_DIMENSION then Inl ImageTooLarge
      else Inr ())"

text \<open>
  \<open>marker >= 0xC0 && marker <= 0xCF && marker !== 0xC4 && marker !== 0xC8 && marker !== 0xCC\<close>;
  every comparison with \<open>undefined\<close> is false.
\<close>

definition is_sof :: "byte option \<Rightarrow> bool" where
  "is_sof marker =
     (case marker of
        None \<Rightarrow> False
      | Some m \<Rightarrow> 0xC0 \<le> m \<and> m \<le> 0xCF \<and> m \<noteq> 0xC4 \<and> m \<noteq> 0xC8 \<and> m \<noteq> 0xCC)"

text \<open>
  The \<open>while (offset < bytes.length)\<close> loop over the JPEG segments; the argument is the
  value of \<open>offset\<close> at the loop head. Inside the body \<open>offset\<close> has been advanced by 2
  before the dimensions or the segment length are read.
\<close>

function jpeg_loop :: "byte list \<Rightarrow> nat \<Rightarrow> error + unit" where
  "jpeg_loop bytes offset =
     (if offset < length bytes then
        (if byte_at bytes offset \<noteq> Some 0xFF then Inr ()
         else if is_sof (byte_at bytes (offset + 1)) then
           check_dimensions (sint (be16 bytes (offset + 2 + 5))) (sint (be16 bytes (offset + 2 + 3)))
         else jpeg_loop bytes (offset + 2 + nat (sint (be16 bytes (offset + 2)))))
      else Inr ())"
  by pat_completeness auto
termination
  by (relation "measure (\<lambda>(bytes, offset). length bytes - offset)") auto

declare jpeg_loop.simps [simp del]

text \<open>The PNG branch.\<close>

definition png_check :: "byte list \<Rightarrow> error + unit" where
  "png_check bytes =
     (if length bytes \<ge> 24 then
        check_dimensions (sint (be32 bytes 16)) (sint (be32 bytes 20))
      else Inr ())"

subsection \<open>The validator\<close>

text \<open>
  Everything the handler does with the decoded \<open>bytes\<close>: the size checks, the magic
  bytes, the dimensions. \<open>Inr (format, size)\<close> is the \<open>valid: true\<close> answer.
\<close>

definition dimensions_stage :: "format \<Rightarrow> byte list \<Rightarrow> error + unit" where
  "dimensions_stage detectedFormat bytes =
     (case (if detectedFormat = jpeg then jpeg_loop bytes 2 else Inr ()) of
        Inl e \<Rightarrow> Inl e
      | Inr _ \<Rightarrow> (if detectedFormat = png then png_check bytes else Inr ()))"

definition validate :: "byte list \<Rightarrow> error + (format \<times> nat)" where
  "validate bytes =
     (if length bytes > MAX_FILE_SIZE then Inl FileTooLarge
      else if length bytes < 1000 then Inl FileTooSmall
      else
        (case detect bytes MAGIC_BYTES of
           None \<Rightarrow> Inl InvalidImageFormat
         | Some detectedFormat \<Rightarrow>
             (case dimensions_stage detectedFormat bytes of
                Inl e \<Rightarrow> Inl e
              | Inr _ \<Rightarrow> Inr (detectedFormat, length bytes))))"

subsection \<open>The request handler\<close>

text \<open>
  The collaborators of the handler: \<open>supabase.auth.getUser(token)\<close> gives the id of the
  user, or \<open>None\<close> when it reports an error or no user; the query on \<open>profiles\<close> gives
  the \<open>face_photos\<close> of a user id, or \<open>None\<close> when there is no row or no array; \<open>atob\<close>
  decodes base64 and throws (\<open>Inl\<close>, with the message) on malformed input.
\<close>

record platform =
  getUser :: "string \<Rightarrow> string option"
  select_face_photos :: "string \<Rightarrow> string list option"
  atob :: "string \<Rightarrow> string + byte list"

record ValidateRequest =
  imageData :: string
  userId :: string

record request =
  req_method :: string
  authorization :: "string option"
  json :: ValidateRequest

datatype call = AuthGetUser string | SelectFacePhotos string | Atob string

text \<open>
  The three answers of the handler: the empty answer to a CORS preflight, status 200 with
  \<open>valid: true\<close>, the format and the size, and status 400 with \<open>valid: false\<close> and the
  error message.
\<close>

datatype response = Preflight | Valid format nat | Invalid string

text \<open>\<open>s.replace(pat, rep)\<close> with a string pattern replaces the first occurrence.\<close>

fun replace_first :: "string \<Rightarrow> string \<Rightarrow> string \<Rightarrow> string" where
  "replace_first pat rep [] = (if pat = [] then rep else [])"
| "replace_first pat rep (c # cs) =
     (if take (length pat) (c # cs) = pat then rep @ drop (length pat) (c # cs)
      else c # replace_first pat rep cs)"

definition is_lower :: "char \<Rightarrow> bool" where
  "is_lower c = (97 \<le> (of_char c :: nat) \<and> (of_char c :: nat) \<le> 122)"

text \<open>
  The characters \<open>.\<close> does not match. Of the four line terminators of the language only
  LF and CR are 8-bit characters.
\<close>

definition is_line_terminator :: "char \<Rightarrow> bool" where
  "is_line_terminator c = (c = CHR 0x0A \<or> c = CHR 0x0D)"

text \<open>
  \<open>imageData.match(/^data:image\/([a-z]+);base64,(.+)$/)\<close>: the two groups, or \<open>None\<close>.
  No letter is a semicolon, so the first group can only be the longest run of letters.
\<close>

definition match_data_url :: "string \<Rightarrow> (string \<times> string) option" where
  "match_data_url s =
     (if take 11 s = ''data:image/'' then
        (let declaredType = takeWhile is_lower (drop 11 s);
             rest = dropWhile is_lower (drop 11 s)
         in if declaredType \<noteq> [] \<and> take 8 rest = '';base64,'' then
              (let base64Data = drop 8 rest
               in if base64Data \<noteq> [] \<and> \<not> list_ex is_line_terminator base64Data
                  then Some (declaredType, base64Data) else None)
            else None)
      else None)"

text \<open>
  The handler up to the decoded \<open>bytes\<close>: authentication, the owner check, the upload
  limit, the data URL and the base64 decoding. The first component lists the calls made
  to the collaborators, in order. \<open>req.headers.get("Authorization")\<close> is \<open>null\<close> (here
  \<open>None\<close>) or the value of the header; \<open>!authHeader\<close> holds for \<open>null\<close> and for the empty
  string.
\<close>

definition decode_request :: "platform \<Rightarrow> request \<Rightarrow> call list \<times> (error + byte list)" where
  "decode_request plat req =
     (case authorization req of
        None \<Rightarrow> ([], Inl MissingAuthorizationHeader)
      | Some authHeader \<Rightarrow>
          if authHeader = [] then ([], Inl MissingAuthorizationHeader)
          else
          (let token = replace_first ''Bearer '' [] authHeader in
           case getUser plat token of
             None \<Rightarrow> ([AuthGetUser token], Inl Unauthorized)
           | Some user_id \<Rightarrow>
               if user_id \<noteq> userId (json req) then
                 ([AuthGetUser token], Inl CannotUploadForAnotherUser)
               else
                 (let uid = userId (json req);
                      currentPhotoCount =
                        (case select_face_photos plat uid of
                           None \<Rightarrow> 0
                         | Some face_photos \<Rightarrow> length face_photos)
                  in if currentPhotoCount \<ge> MAX_UPLOADS_PER_DAY then
                       ([AuthGetUser token, SelectFacePhotos uid], Inl UploadLimitExceeded)
                     else
                       (case match_data_url (imageData (json req)) of
                          None \<Rightarrow>
                            ([AuthGetUser token, SelectFacePhotos uid],
                             Inl InvalidImageDataFormat)
                        | Some (declaredType, base64Data) \<Rightarrow>
                            (case atob plat base64Data of
                               Inl m \<Rightarrow>
                                 ([AuthGetUser token, SelectFacePhotos uid, Atob base64Data],
                                  Inl (Thrown m))
                             | Inr bytes \<Rightarrow>
                                 ([AuthGetUser token, SelectFacePhotos uid, Atob base64Data],
                                  Inr bytes))))))"

text \<open>The body of the \<open>try\<close> block.\<close>

definition try_block :: "platform \<Rightarrow> request \<Rightarrow> call list \<times> (error + (format \<times> nat))" where
  "try_block plat req =
     (case decode_request plat req of
        (calls, Inl e) \<Rightarrow> (calls, Inl e)
      | (calls, Inr bytes) \<Rightarrow> (calls, validate bytes))"

text \<open>The \<open>catch\<close> block answers \<open>error.message || "Image validation failed"\<close>.\<close>

definition respond :: "error + (format \<times> nat) \<Rightarrow> response" where
  "respond r =
     (case r of
        Inl e \<Rightarrow> Invalid (if message e = [] then ''Image validation failed'' else message e)
      | Inr (detectedFormat, n) \<Rightarrow> Valid detectedFormat n)"

definition serve :: "platform \<Rightarrow> request \<Rightarrow> response \<times> call list" where
  "serve plat req =
     (if req_method req = ''OPTIONS'' then (Preflight, [])
      else (case try_block plat req of (calls, r) \<Rightarrow> (respond r, calls)))"

section \<open>The browser pages: attendance capture and face enrollment\<close>

subsection \<open>Collaborators and events\<close>

text \<open>
  A call to the backend resolves with data, resolves with an error (the \<open>error\<close> field of
  the result is set; the message is kept), or rejects (the \<open>await\<close> throws).
\<close>

datatype 'a outcome = Resolved 'a | Failed string | Rejected string

type_synonym number = real

record profile =
  roll_number :: string
  full_name :: string
  email :: string

text \<open>The row inserted into \<open>attendance_records\<close>; \<open>image_url\<close> is \<open>null\<close> or a URL.\<close>

record attendance_record =
  user_id :: string
  row_roll_number :: string
  student_name :: string
  row_email :: string
  confidence_score :: number
  status :: string
  face_vector :: "number list"
  image_url :: "string option"

text \<open>
  The bodies of the two edge functions the pages invoke: \<open>send-attendance-email\<close> (email,
  name, rollNumber, status, timestamp, confidenceScore) and \<open>validate-face-image\<close>
  (imageData, userId).
\<close>

datatype invoke_body =
    EmailBody string string string string string number
  | ValidateBody string string

text \<open>
  What \<open>supabase.functions.invoke(...)\<close> resolves with: \<open>data\<close> and \<open>error\<close> (\<open>null\<close> or a
  message), unless it rejects. The data of the validation function is \<open>null\<close>, or \<open>valid\<close>
  and an optional \<open>error\<close> text; the data of the email function is never read and is
  left out.
\<close>

datatype validation_data = ValidationData bool "string option"

datatype invoke_result =
    InvokeResult "validation_data option" "string option"
  | InvokeRejected string

datatype ui_status = Scanning | Success | Error | Completed

text \<open>
  The observable steps of a run, in order: the calls to the backend with their results,
  and the state updates of the page. Messages shown to the user and console output are
  left out.
\<close>

datatype event =
    SetIsProcessing bool
  | SetStatus ui_status
  | StopCamera
  | StorageUpload string "byte list" "unit outcome"
  | StorageCreateSignedUrl string nat "string outcome"
  | DbInsert attendance_record "unit outcome"
  | ProfilesUpdate string "string list" "unit outcome"
  | FunctionsInvoke string invoke_body invoke_result
  | SetUploading bool
  | Toast string string
  | OnComplete

text \<open>A number in a template string is printed in decimal, most significant digit first.\<close>

definition digit :: "nat \<Rightarrow> char" where
  "digit d = char_of (d + of_char CHR ''0'')"

function decimal :: "nat \<Rightarrow> string" where
  "decimal n = (if 10 \<le> n then decimal (n div 10) @ [digit (n mod 10)] else [digit n])"
  by pat_completeness auto
termination
  by (relation "measure (\<lambda>n. n)") auto

declare decimal.simps [simp del]

subsection \<open>Camera: \<open>handleCapture\<close> and \<open>sendAttendance\<close>\<close>

text \<open>
  What one click on "Capture Attendance" reads: the state of the component (the id of
  \<open>user\<close>, \<open>profile\<close> as \<open>user_profile\<close>, \<open>isProcessing\<close>, the video element with its width
  and height, the canvas), the browser (the 2d context, the encoded frame of
  \<open>canvas.toBlob\<close> or \<open>null\<close>, the clock), the face detector, and the results of the
  backend calls.
\<close>

datatype detection = NoFace | Face "number list" | DetectionThrows

record camera_env =
  user :: "string option"
  user_profile :: "profile option"
  isProcessing :: bool
  video :: "(nat \<times> nat) option"
  canvas :: bool
  context2d :: bool
  toBlob :: "byte list option"
  now :: nat
  now_iso :: string
  detectSingleFace :: detection
  storage_upload :: "unit outcome"
  storage_createSignedUrl :: "string outcome"
  db_insert :: "unit outcome"
  functions_invoke :: "unit outcome"

text \<open>
  The \<open>catch\<close> block of \<open>sendAttendance\<close>: the error status, and three seconds later the
  timer that returns the page to scanning.
\<close>

definition catch_block :: "event list" where
  "catch_block = [SetStatus Error, SetIsProcessing False, SetStatus Scanning]"

text \<open>
  The first part of the \<open>try\<close> block: the frame is drawn, encoded and uploaded. The
  result is \<open>Inr imageUrl\<close>, or \<open>Inl\<close> when an exception leaves the block (a \<open>null\<close> blob,
  whose \<open>size\<close> is read, or a rejected call).
\<close>

definition capture_image :: "camera_env \<Rightarrow> string \<Rightarrow> profile \<Rightarrow> event list \<times> (unit + string option)" where
  "capture_image env uid prof =
     (case video env of
        None \<Rightarrow> ([], Inr None)
      | Some dims \<Rightarrow>
          if \<not> context2d env then ([], Inr None)
          else
            (case toBlob env of
               None \<Rightarrow> ([], Inl ())
             | Some blob \<Rightarrow>
                 (let fileName = roll_number prof @ ''_'' @ decimal (now env) @ ''.jpg'';
                      userFileName = uid @ ''/'' @ fileName
                  in case storage_upload env of
                       Rejected m \<Rightarrow> ([StorageUpload userFileName blob (Rejected m)], Inl ())
                     | Failed m \<Rightarrow> ([StorageUpload userFileName blob (Failed m)], Inr None)
                     | Resolved u \<Rightarrow>
                         (case storage_createSignedUrl env of
                            Rejected m \<Rightarrow>
                              ([StorageUpload userFileName blob (Resolved u),
                                StorageCreateSignedUrl userFileName 3600 (Rejected m)], Inl ())
                          | Failed m \<Rightarrow>
                              ([StorageUpload userFileName blob (Resolved u),
                                StorageCreateSignedUrl userFileName 3600 (Failed m)], Inr None)
                          | Resolved signedUrl \<Rightarrow>
                              ([StorageUpload userFileName blob (Resolved u),
                                StorageCreateSignedUrl userFileName 3600 (Resolved signedUrl)],
                               Inr (Some signedUrl))))))"

text \<open>
  The notification: the call is awaited inside its own \<open>try\<close>; a rejection is caught
  and logged.
\<close>

definition send_email :: "camera_env \<Rightarrow> profile \<Rightarrow> number \<Rightarrow> event list" where
  "send_email env prof confidenceScore =
     [FunctionsInvoke ''send-attendance-email''
        (EmailBody (email prof) (full_name prof) (roll_number prof) ''present'' (now_iso env)
           confidenceScore)
        (case functions_invoke env of
           Rejected m \<Rightarrow> InvokeRejected m
         | Failed m \<Rightarrow> InvokeResult None (Some m)
         | Resolved u \<Rightarrow> InvokeResult None None)]"

text \<open>
  The rest of the \<open>try\<close> block: the row is inserted, the success status is set and the
  notification is sent. After the insert the \<open>error\<close> of the result is logged and nothing
  else depends on it; an insert that rejects leaves the block for the \<open>catch\<close> block. The
  last two events of a run that reaches the success status are those of the timer set
  two seconds later.
\<close>

definition save_and_notify :: "camera_env \<Rightarrow> string \<Rightarrow> profile \<Rightarrow> number list \<Rightarrow> string option \<Rightarrow> event list" where
  "save_and_notify env uid prof vector imageUrl =
     (let confidenceScore = 0.90;
          row = \<lparr>user_id = uid, row_roll_number = roll_number prof,
                 student_name = full_name prof, row_email = email prof,
                 confidence_score = confidenceScore, status = ''present'',
                 face_vector = vector, image_url = imageUrl\<rparr>
      in case db_insert env of
           Rejected m \<Rightarrow> DbInsert row (Rejected m) # catch_block
         | Failed m \<Rightarrow>
             [DbInsert row (Failed m), SetStatus Success]
               @ send_email env prof confidenceScore
               @ [SetStatus Completed, StopCamera]
         | Resolved u \<Rightarrow>
             [DbInsert row (Resolved u), SetStatus Success]
               @ send_email env prof confidenceScore
               @ [SetStatus Completed, StopCamera])"

text \<open>\<open>sendAttendance(vector)\<close>\<close>

definition sendAttendance :: "camera_env \<Rightarrow> number list \<Rightarrow> event list" where
  "sendAttendance env vector =
     (case user env of
        None \<Rightarrow> []
      | Some uid \<Rightarrow>
          (case user_profile env of
             None \<Rightarrow> []
           | Some prof \<Rightarrow>
               (case capture_image env uid prof of
                  (uploaded, Inl u) \<Rightarrow> uploaded @ catch_block
                | (uploaded, Inr imageUrl) \<Rightarrow>
                    uploaded @ save_and_notify env uid prof vector imageUrl)))"

text \<open>\<open>handleCapture\<close>: the guard, the face detection, and the submission.\<close>

definition handleCapture :: "camera_env \<Rightarrow> event list" where
  "handleCapture env =
     (if isProcessing env \<or> user env = None \<or> user_profile env = None \<or> video env = None
         \<or> \<not> canvas env
      then []
      else
        SetIsProcessing True #
        (case detectSingleFace env of
           DetectionThrows \<Rightarrow> [SetIsProcessing False]
         | NoFace \<Rightarrow> [SetIsProcessing False]
         | Face descriptor \<Rightarrow> sendAttendance env descriptor))"

subsection \<open>FaceEnrollment: \<open>uploadPhotos\<close>\<close>

text \<open>
  What one run of \<open>uploadPhotos\<close> reads: the photos (data URLs) of the component and,
  for the photo at each index, the answer of the validation function, the blob that
  \<open>fetch\<close> yields (or the message it rejects with), the clock, and the results of the
  two storage calls; then the result of the profile update.
\<close>

record enrollment_env =
  photos :: "string list"
  invoke_validate :: "nat \<Rightarrow> invoke_result"
  fetch_blob :: "nat \<Rightarrow> string + byte list"
  now_at :: "nat \<Rightarrow> nat"
  upload_at :: "nat \<Rightarrow> unit outcome"
  createSignedUrl_at :: "nat \<Rightarrow> string outcome"
  profiles_update :: "unit outcome"

text \<open>\<open>validationError || !validationData?.valid\<close>\<close>

fun validation_failed :: "invoke_result \<Rightarrow> bool" where
  "validation_failed (InvokeResult validationData (Some validationError)) = True"
| "validation_failed (InvokeResult None None) = True"
| "validation_failed (InvokeResult (Some (ValidationData valid e)) None) = (\<not> valid)"
| "validation_failed (InvokeRejected m) = True"

text \<open>
  The message of the error thrown then:
  \<open>validationData?.error || validationError?.message || "Image validation failed"\<close>;
  a rejected call throws its own message.
\<close>

fun or_else :: "string option \<Rightarrow> string \<Rightarrow> string" where
  "or_else None d = d"
| "or_else (Some s) d = (if s = [] then d else s)"

fun validation_message :: "invoke_result \<Rightarrow> string" where
  "validation_message (InvokeResult validationData validationError) =
     or_else (case validationData of None \<Rightarrow> None | Some (ValidationData valid e) \<Rightarrow> e)
       (or_else validationError ''Image validation failed'')"
| "validation_message (InvokeRejected m) = m"

text \<open>
  One iteration of the loop, for the photo at index \<open>i\<close>: \<open>Inl\<close> is the message of the
  error thrown, \<open>Inr\<close> the signed URL pushed to \<open>uploadedUrls\<close>.
\<close>

definition upload_photo :: "enrollment_env \<Rightarrow> string \<Rightarrow> nat \<Rightarrow> string \<Rightarrow> event list \<times> (string + string)" where
  "upload_photo env uid i photo =
     (let validated =
            FunctionsInvoke ''validate-face-image'' (ValidateBody photo uid) (invoke_validate env i)
      in if validation_failed (invoke_validate env i) then
           ([validated], Inl (validation_message (invoke_validate env i)))
         else
           (case fetch_blob env i of
              Inl m \<Rightarrow> ([validated], Inl m)
            | Inr blob \<Rightarrow>
                (let fileName = uid @ ''_face_'' @ decimal i @ ''_''
                                  @ decimal (now_at env i) @ ''.jpg'';
                     filePath = uid @ ''/'' @ fileName
                 in case upload_at env i of
                      Rejected m \<Rightarrow> ([validated, StorageUpload filePath blob (Rejected m)], Inl m)
                    | Failed m \<Rightarrow> ([validated, StorageUpload filePath blob (Failed m)], Inl m)
                    | Resolved u \<Rightarrow>
                        (case createSignedUrl_at env i of
                           Rejected m \<Rightarrow>
                             ([validated, StorageUpload filePath blob (Resolved u),
                               StorageCreateSignedUrl filePath 31536000 (Rejected m)], Inl m)
                         | Failed m \<Rightarrow>
                             ([validated, StorageUpload filePath blob (Resolved u),
                               StorageCreateSignedUrl filePath 31536000 (Failed m)], Inl m)
                         | Resolved signedUrl \<Rightarrow>
                             ([validated, StorageUpload filePath blob (Resolved u),
                               StorageCreateSignedUrl filePath 31536000 (Resolved signedUrl)],
                              Inr signedUrl)))))"

text \<open>The \<open>for\<close> loop from index \<open>i\<close> over the remaining photos.\<close>

fun upload_loop :: "enrollment_env \<Rightarrow> string \<Rightarrow> nat \<Rightarrow> string list \<Rightarrow> event list \<times> (string + string list)" where
  "upload_loop env uid i [] = ([], Inr [])"
| "upload_loop env uid i (photo # rest) =
     (case upload_photo env uid i photo of
        (evs, Inl m) \<Rightarrow> (evs, Inl m)
      | (evs, Inr signedUrl) \<Rightarrow>
          (case upload_loop env uid (i + 1) rest of
             (evs', Inl m) \<Rightarrow> (evs @ evs', Inl m)
           | (evs', Inr uploadedUrls) \<Rightarrow> (evs @ evs', Inr (signedUrl # uploadedUrls))))"

text \<open>
  \<open>uploadPhotos\<close>, for the component's \<open>userId\<close>. The toast of the \<open>catch\<close> block shows
  \<open>error.message || "Failed to upload photos."\<close>.
\<close>

definition upload_failed :: "string \<Rightarrow> event list" where
  "upload_failed m =
     [Toast ''Upload Failed'' (if m = [] then ''Failed to upload photos.'' else m),
      SetUploading False]"

definition uploadPhotos :: "enrollment_env \<Rightarrow> string \<Rightarrow> event list" where
  "uploadPhotos env uid =
     (if photos env = [] then
        [Toast ''No photos'' ''Please capture or upload at least one photo.'']
      else
        SetUploading True #
        (case upload_loop env uid 0 (photos env) of
           (evs, Inl m) \<Rightarrow> evs @ upload_failed m
         | (evs, Inr uploadedUrls) \<Rightarrow>
             (case profiles_update env of
                Rejected m \<Rightarrow>
                  evs @ [ProfilesUpdate uid uploadedUrls (Rejected m)] @ upload_failed m
              | Failed m \<Rightarrow>
                  evs @ [ProfilesUpdate uid uploadedUrls (Failed m)] @ upload_failed m
              | Resolved u \<Rightarrow>
                  evs @ [ProfilesUpdate uid uploadedUrls (Resolved u),
                         Toast ''Success!'' ''Face photos uploaded successfully.'',
                         OnComplete, SetUploading False])))"

section \<open>Sample inputs and notions used to state the properties\<close>

subsection \<open>Sample inputs\<close>

text \<open>The data URL with a given subtype and base64 text.\<close>

definition data_url :: "string \<Rightarrow> string \<Rightarrow> string" where
  "data_url declaredType base64Data = ''data:image/'' @ declaredType @ '';base64,'' @ base64Data"

text \<open>
  A platform that knows one token, of the user \<open>alice\<close>, who has no stored photo, and
  whose decoder yields the given bytes.
\<close>

definition sample_platform :: "byte list \<Rightarrow> platform" where
  "sample_platform bytes =
     \<lparr>getUser = (\<lambda>token. if token = ''t1'' then Some ''alice'' else None),
      select_face_photos = (\<lambda>uid. Some []),
      atob = (\<lambda>base64Data. Inr bytes)\<rparr>"

definition sample_request :: "string \<Rightarrow> string \<Rightarrow> request" where
  "sample_request declaredType uid =
     \<lparr>req_method = ''POST'', authorization = Some ''Bearer t1'',
      json = \<lparr>imageData = data_url declaredType ''AAAA'', userId = uid\<rparr>\<rparr>"

text \<open>A RIFF container holding WAVE audio, 1000 bytes long.\<close>

definition wav_file :: "byte list" where
  "wav_file =
     [0x52, 0x49, 0x46, 0x46, 0xE0, 0x03, 0x00, 0x00, 0x57, 0x41, 0x56, 0x45] @ replicate 988 0"

text \<open>A GIF header followed by zeros, 1000 bytes long.\<close>

definition gif_file :: "byte list" where
  "gif_file = [0x47, 0x49, 0x46, 0x38, 0x39, 0x61] @ replicate 994 0"

text \<open>A JPEG whose first segment after SOI is a baseline frame header (SOF0), 1000 bytes long.\<close>

definition sample_jpeg :: "nat \<Rightarrow> nat \<Rightarrow> byte list" where
  "sample_jpeg width height =
     [0xFF, 0xD8, 0xFF, 0xC0, 0x00, 0x11, 0x08,
      of_nat (height div 256), of_nat (height mod 256),
      of_nat (width div 256), of_nat (width mod 256)] @ replicate 989 0"

text \<open>A JPEG with a JFIF APP0 segment of 16 bytes before the frame header, 1000 bytes long.\<close>

definition sample_jfif :: "nat \<Rightarrow> nat \<Rightarrow> byte list" where
  "sample_jfif width height =
     [0xFF, 0xD8,
      0xFF, 0xE0, 0x00, 0x10, 0x4A, 0x46, 0x49, 0x46, 0x00, 0x01, 0x01, 0x00,
      0x00, 0x01, 0x00, 0x01, 0x00, 0x00,
      0xFF, 0xC0, 0x00, 0x11, 0x08,
      of_nat (height div 256), of_nat (height mod 256),
      of_nat (width div 256), of_nat (width mod 256)] @ replicate 971 0"

text \<open>A PNG signature and the start of an IHDR chunk, 1000 bytes long.\<close>

definition sample_png :: "nat \<Rightarrow> nat \<Rightarrow> byte list" where
  "sample_png width height =
     [0x89, 0x50, 0x4E, 0x47, 0x0D, 0x0A, 0x1A, 0x0A,
      0x00, 0x00, 0x00, 0x0D, 0x49, 0x48, 0x44, 0x52,
      of_nat (width div 16777216), of_nat (width div 65536 mod 256),
      of_nat (width div 256 mod 256), of_nat (width mod 256),
      of_nat (height div 16777216), of_nat (height div 65536 mod 256),
      of_nat (height div 256 mod 256), of_nat (height mod 256)] @ replicate 976 0"

subsection \<open>Notions used to state the properties\<close>

text \<open>The unsigned big-endian value of a sequence of bytes.\<close>

definition big_endian :: "byte list \<Rightarrow> int" where
  "big_endian bs = foldl (\<lambda>acc b. 256 * acc + uint b) 0 bs"

text \<open>
  The positions at which the segment walk of a JPEG stands: the first segment starts
  after the 2-byte SOI; a segment that starts with \<open>0xFF\<close> and whose marker is not a
  Start-Of-Frame marker is skipped by the 16-bit length that follows the marker.
\<close>

inductive segment_start :: "byte list \<Rightarrow> nat \<Rightarrow> bool" for bytes :: "byte list" where
  after_SOI: "segment_start bytes 2"
| skip: "segment_start bytes p \<Longrightarrow> p < length bytes \<Longrightarrow> byte_at bytes p = Some 0xFF \<Longrightarrow>
         \<not> is_sof (byte_at bytes (p + 1)) \<Longrightarrow>
         segment_start bytes (p + 2 + nat (sint (be16 bytes (p + 2))))"

text \<open>The errors raised by the checks on the decoded bytes.\<close>

definition validation_errors :: "error list" where
  "validation_errors =
     [FileTooLarge, FileTooSmall, InvalidImageFormat, ImageTooSmall, ImageTooLarge]"

text \<open>Readings of a run: the statuses set, the rows that were stored, and kinds of events.\<close>

fun statuses :: "event list \<Rightarrow> ui_status list" where
  "statuses [] = []"
| "statuses (SetStatus s # evs) = s # statuses evs"
| "statuses (e # evs) = statuses evs"

fun records_created :: "event list \<Rightarrow> attendance_record list" where
  "records_created [] = []"
| "records_created (DbInsert row (Resolved u) # evs) = row # records_created evs"
| "records_created (e # evs) = records_created evs"

fun is_storage_write :: "event \<Rightarrow> bool" where
  "is_storage_write (StorageUpload path blob (Resolved u)) = True"
| "is_storage_write e = False"

fun is_invocation :: "string \<Rightarrow> event \<Rightarrow> bool" where
  "is_invocation name (FunctionsInvoke n body r) = (n = name)"
| "is_invocation name e = False"

text \<open>The same event with the face vector of an inserted row blanked.\<close>

fun forget_vector :: "event \<Rightarrow> event" where
  "forget_vector (DbInsert row r) = DbInsert (row\<lparr>face_vector := []\<rparr>) r"
| "forget_vector e = e"

text \<open>The path under which \<open>uploadPhotos\<close> stores the photo at index \<open>i\<close>.\<close>

definition file_path :: "enrollment_env \<Rightarrow> string \<Rightarrow> nat \<Rightarrow> string" where
  "file_path env uid i =
     uid @ ''/'' @ uid @ ''_face_'' @ decimal i @ ''_'' @ decimal (now_at env i)
       @ ''.jpg''"

text \<open>
  A capture in which every call succeeds; the video is 50 by 50 pixels and so is the
  encoded frame.
\<close>

definition sample_camera :: camera_env where
  "sample_camera =
     \<lparr>user = Some ''alice'',
      user_profile =
        Some \<lparr>roll_number = ''R1'', full_name = ''Alice'', email = ''alice@example.org''\<rparr>,
      isProcessing = False,
      video = Some (50, 50),
      canvas = True,
      context2d = True,
      toBlob = Some (sample_jfif 50 50),
      now = 1700000000000,
      now_iso = ''2023-11-14T22:13:20.000Z'',
      detectSingleFace = Face [0.25, 0.5],
      storage_upload = Resolved (),
      storage_createSignedUrl = Resolved ''https://storage.example/signed'',
      db_insert = Resolved (),
      functions_invoke = Resolved ()\<rparr>"

text \<open>An enrollment of two photos; the validation accepts the first and rejects the second.\<close>

definition sample_enrollment :: enrollment_env where
  "sample_enrollment =
     \<lparr>photos = [data_url ''jpeg'' ''AAAA'', data_url ''jpeg'' ''BBBB''],
      invoke_validate =
        (\<lambda>i. if i = 0 then InvokeResult (Some (ValidationData True None)) None
              else InvokeResult None (Some ''Edge Function returned a non-2xx status code'')),
      fetch_blob = (\<lambda>i. Inr (sample_jfif 200 200)),
      now_at = (\<lambda>i. 1700000000000 + i),
      upload_at = (\<lambda>i. Resolved ()),
      createSignedUrl_at = (\<lambda>i. Resolved ''https://storage.example/signed''),
      profiles_update = Resolved ()\<rparr>"

text \<open>The row that \<open>sendAttendance\<close> inserts.\<close>

definition new_row :: "string \<Rightarrow> profile \<Rightarrow> number list \<Rightarrow> string option \<Rightarrow> attendance_record" where
  "new_row uid prof vector imageUrl =
     \<lparr>user_id = uid, row_roll_number = roll_number prof, student_name = full_name prof,
      row_email = email prof, confidence_score = 0.90, status = ''present'',
      face_vector = vector, image_url = imageUrl\<rparr>"

text \<open>The validation call that \<open>uploadPhotos\<close> makes for the photo at index \<open>i\<close>.\<close>

definition validate_call :: "enrollment_env \<Rightarrow> string \<Rightarrow> nat \<Rightarrow> string \<Rightarrow> event" where
  "validate_call env uid i photo =
     FunctionsInvoke ''validate-face-image'' (ValidateBody photo uid) (invoke_validate env i)"

section \<open>Properties of the validator\<close>

subsection \<open>Magic bytes\<close>

lemma every_magic_take: "every_magic bytes magic = (take (length magic) bytes = magic)"
proof -
  have "every_magic bytes magic = (\<forall>i < length magic. byte_at bytes i = Some (magic ! i))"
    by (simp add: every_magic_def list_all_length)
  also have "\<dots> = (length magic \<le> length bytes \<and> (\<forall>i < length magic. bytes ! i = magic ! i))"
  proof (cases "length magic \<le> length bytes")
    case True
    then show ?thesis by (auto simp: byte_at_def)
  next
    case False
    then have "length bytes < length magic" by simp
    then have "\<not> (\<forall>i < length magic. byte_at bytes i = Some (magic ! i))"
      by (auto simp: byte_at_def intro!: exI[of _ "length bytes"])
    with False show ?thesis by simp
  qed
  also have "\<dots> = (take (length magic) bytes = magic)"
    by (auto simp: list_eq_iff_nth_eq)
  finally show ?thesis .
qed

lemma every_magic3: "every_magic bytes [a, b, c] = (take 3 bytes = [a, b, c])"
proof -
  have "length [a, b, c] = 3" by simp
  then show ?thesis using every_magic_take [of bytes "[a, b, c]"] by (simp only:)
qed

lemma every_magic4: "every_magic bytes [a, b, c, d] = (take 4 bytes = [a, b, c, d])"
proof -
  have "length [a, b, c, d] = 4" by simp
  then show ?thesis using every_magic_take [of bytes "[a, b, c, d]"] by (simp only:)
qed

lemma detect_MAGIC_BYTES:
  "detect bytes MAGIC_BYTES =
     (if take 3 bytes = [0xFF, 0xD8, 0xFF] then Some jpeg
      else if take 4 bytes = [0x89, 0x50, 0x4E, 0x47] then Some png
      else if take 4 bytes = [0x52, 0x49, 0x46, 0x46] then Some webp
      else None)"
  unfolding MAGIC_BYTES_def detect.simps every_magic3 every_magic4 by (rule refl)

subsection \<open>From the request to the validator\<close>

lemma serve_decoded:
  assumes "req_method req \<noteq> ''OPTIONS''" "snd (decode_request plat req) = Inr bytes"
  shows "fst (serve plat req) = respond (validate bytes)"
  using assms
  by (cases "decode_request plat req") (simp add: serve_def try_block_def split: prod.splits)

lemma sample_decoded:
  "decode_request (sample_platform bytes) (sample_request ''jpeg'' ''alice'') =
     ([AuthGetUser ''t1'', SelectFacePhotos ''alice'', Atob ''AAAA''], Inr bytes)"
  by (simp add: decode_request_def sample_platform_def sample_request_def data_url_def
      match_data_url_def MAX_UPLOADS_PER_DAY_def is_lower_def is_line_terminator_def)

lemma sample_method: "req_method (sample_request t u) \<noteq> ''OPTIONS''"
  by (simp add: sample_request_def)

subsection \<open>The size gate\<close>

text \<open>
  Claim C6. Whatever the decoded bytes are, fewer than 1000 of them are rejected as
  "File too small" and more than 5,242,880 as "File too large": the validator returns
  that error, and a request that decodes to these bytes is answered with status 400 and
  that message. No other property of the bytes is consulted.
\<close>

theorem size_gate:
  "(length bytes > 5242880 \<longrightarrow>
      validate bytes = Inl FileTooLarge \<and>
      (req_method req \<noteq> ''OPTIONS'' \<and> snd (decode_request plat req) = Inr bytes \<longrightarrow>
         fst (serve plat req) = Invalid ''File too large. Maximum size: 5MB'')) \<and>
   (length bytes < 1000 \<longrightarrow>
      validate bytes = Inl FileTooSmall \<and>
      (req_method req \<noteq> ''OPTIONS'' \<and> snd (decode_request plat req) = Inr bytes \<longrightarrow>
         fst (serve plat req) = Invalid ''File too small. Minimum size: 1KB''))"
proof -
  have large: "validate bytes = Inl FileTooLarge" if "length bytes > 5242880"
    using that by (simp add: validate_def MAX_FILE_SIZE_def)
  have small: "validate bytes = Inl FileTooSmall" if "length bytes < 1000"
    using that by (simp add: validate_def MAX_FILE_SIZE_def)
  show ?thesis
    using large small serve_decoded [of req plat bytes] by (auto simp: respond_def)
qed

theorem size_gate_witness:
  "validate (replicate 5242881 0) = Inl FileTooLarge \<and>
   fst (serve (sample_platform (replicate 5242881 0)) (sample_request ''jpeg'' ''alice''))
     = Invalid ''File too large. Maximum size: 5MB'' \<and>
   validate (replicate 999 0) = Inl FileTooSmall \<and>
   fst (serve (sample_platform (replicate 999 0)) (sample_request ''jpeg'' ''alice''))
     = Invalid ''File too small. Minimum size: 1KB''"
  using
    size_gate [of "replicate 5242881 0" "sample_request ''jpeg'' ''alice''"
      "sample_platform (replicate 5242881 0)"]
    size_gate [of "replicate 999 0" "sample_request ''jpeg'' ''alice''"
      "sample_platform (replicate 999 0)"]
  by (simp add: sample_decoded sample_method)

subsection \<open>Unknown formats and the declared type\<close>

lemma not_lower_semicolon: "\<not> is_lower CHR '';''"
  by (simp add: is_lower_def)

lemma match_data_url_data_url:
  assumes "declaredType \<noteq> []" "list_all is_lower declaredType"
  shows "match_data_url (data_url declaredType base64Data) =
     (if base64Data \<noteq> [] \<and> \<not> list_ex is_line_terminator base64Data
      then Some (declaredType, base64Data) else None)"
proof -
  have a: "\<forall>c \<in> set declaredType. is_lower c" using assms(2) by (simp add: list_all_iff)
  have t: "takeWhile is_lower (declaredType @ CHR '';'' # xs) = declaredType" for xs
    using a not_lower_semicolon by (simp add: takeWhile_append2)
  have d: "dropWhile is_lower (declaredType @ CHR '';'' # xs) = CHR '';'' # xs" for xs
    using a not_lower_semicolon by (simp add: dropWhile_append2)
  show ?thesis
    using assms(1) by (simp add: match_data_url_def data_url_def t d Let_def)
qed

lemma try_block_declaredType:
  assumes "t1 \<noteq> []" "list_all is_lower t1" "t2 \<noteq> []" "list_all is_lower t2"
  shows "try_block plat (req\<lparr>json := (json req)\<lparr>imageData := data_url t1 d\<rparr>\<rparr>) =
         try_block plat (req\<lparr>json := (json req)\<lparr>imageData := data_url t2 d\<rparr>\<rparr>)"
  using assms
  by (simp add: try_block_def decode_request_def match_data_url_data_url Let_def
      split: option.splits)

lemma gif_length: "length gif_file = 1000"
  by (simp add: gif_file_def)

text \<open>
  Claim C7. Bytes within the size bounds that start with none of the three signatures
  (JPEG \<open>FF D8 FF\<close>, PNG \<open>89 50 4E 47\<close>, RIFF \<open>52 49 46 46\<close>) are rejected with
  "Invalid image format", by the validator and in the answer of the handler. The subtype
  declared in the data URL has no part in the answer: two requests that differ only in
  that subtype (any two non-empty runs of lower-case letters) get the same answer and
  make the same calls.
\<close>

theorem invalid_format:
  "(1000 \<le> length bytes \<and> length bytes \<le> 5242880 \<and>
    take 3 bytes \<noteq> [0xFF, 0xD8, 0xFF] \<and> take 4 bytes \<noteq> [0x89, 0x50, 0x4E, 0x47] \<and>
    take 4 bytes \<noteq> [0x52, 0x49, 0x46, 0x46] \<longrightarrow>
      validate bytes = Inl InvalidImageFormat \<and>
      (req_method req \<noteq> ''OPTIONS'' \<and> snd (decode_request plat req) = Inr bytes \<longrightarrow>
         fst (serve plat req) =
           Invalid ''Invalid image format. Only JPEG, PNG, and WebP are allowed.'')) \<and>
   (t1 \<noteq> [] \<and> list_all is_lower t1 \<and> t2 \<noteq> [] \<and> list_all is_lower t2 \<longrightarrow>
      serve plat (req\<lparr>json := (json req)\<lparr>imageData := data_url t1 d\<rparr>\<rparr>) =
      serve plat (req\<lparr>json := (json req)\<lparr>imageData := data_url t2 d\<rparr>\<rparr>))"
proof -
  have v: "validate bytes = Inl InvalidImageFormat"
    if "1000 \<le> length bytes" "length bytes \<le> 5242880"
      "take 3 bytes \<noteq> [0xFF, 0xD8, 0xFF]" "take 4 bytes \<noteq> [0x89, 0x50, 0x4E, 0x47]"
      "take 4 bytes \<noteq> [0x52, 0x49, 0x46, 0x46]"
    using that by (simp add: validate_def MAX_FILE_SIZE_def detect_MAGIC_BYTES)
  have s: "serve plat (req\<lparr>json := (json req)\<lparr>imageData := data_url t1 d\<rparr>\<rparr>) =
      serve plat (req\<lparr>json := (json req)\<lparr>imageData := data_url t2 d\<rparr>\<rparr>)"
    if "t1 \<noteq> []" "list_all is_lower t1" "t2 \<noteq> []" "list_all is_lower t2"
    using try_block_declaredType [OF that] by (simp add: serve_def)
  show ?thesis
    using v s serve_decoded [of req plat bytes] by (auto simp: respond_def)
qed

theorem invalid_format_witness:
  "validate gif_file = Inl InvalidImageFormat \<and>
   fst (serve (sample_platform gif_file) (sample_request ''jpeg'' ''alice'')) =
     Invalid ''Invalid image format. Only JPEG, PNG, and WebP are allowed.'' \<and>
   serve (sample_platform gif_file) (sample_request ''png'' ''alice'') =
     serve (sample_platform gif_file) (sample_request ''jpeg'' ''alice'')"
  using invalid_format [of gif_file "sample_request ''jpeg'' ''alice''" "sample_platform gif_file"
      "''png''" "''jpeg''" "''AAAA''"]
  by (simp add: sample_decoded sample_method gif_length)
     (simp add: gif_file_def sample_request_def is_lower_def)

subsection \<open>Big-endian values\<close>

lemma push_bit_or_add:
  assumes "0 \<le> y" "y < 2 ^ n"
  shows "push_bit n (x::int) OR y = 2 ^ n * x + y"
proof -
  have "push_bit n x + y = push_bit n x OR y"
  proof (rule disjunctive_add)
    fix k
    show "\<not> bit (push_bit n x) k \<or> \<not> bit y k"
    proof (cases "k < n")
      case True
      then show ?thesis by (simp add: bit_push_bit_iff)
    next
      case False
      have "take_bit n y = y" using assms by (simp add: take_bit_int_eq_self)
      then have "bit y k = bit (take_bit n y) k" by simp
      also have "\<dots> = False" using False by (simp add: bit_take_bit_iff)
      finally show ?thesis by simp
    qed
  qed
  then show ?thesis by (simp add: push_bit_eq_mult mult.commute)
qed

lemma uint_byte_bounds: "0 \<le> uint (b::byte)" "uint (b::byte) < 256"
  using uint_bounded [of b] by simp_all

lemma uint_ucast_byte: "uint (ucast (b::byte) :: int32) = uint b"
  by (simp add: uint_up_ucast is_up)

lemma uint_push_bit_ucast:
  assumes "n \<le> 24"
  shows "uint (push_bit n (ucast (a::byte)) :: int32) = 2 ^ n * uint a"
proof -
  have "uint (push_bit n (ucast a :: int32)) = take_bit 32 (push_bit n (uint (ucast a :: int32)))"
    by (simp only: unsigned_push_bit_eq) simp
  also have "\<dots> = take_bit 32 (push_bit n (uint a))" by (simp only: uint_ucast_byte)
  also have "\<dots> = push_bit n (uint a)"
  proof (rule take_bit_int_eq_self)
    show "0 \<le> push_bit n (uint a)" by simp
    have "push_bit n (uint a) < 2 ^ n * 2 ^ 8"
      using uint_byte_bounds [of a] by (simp add: push_bit_eq_mult mult.commute)
    also have "\<dots> = (2::int) ^ (n + 8)" by (simp add: power_add)
    also have "\<dots> \<le> 2 ^ 32" using assms by (intro power_increasing) simp_all
    finally show "push_bit n (uint a) < 2 ^ 32" .
  qed
  finally show ?thesis by (simp add: push_bit_eq_mult mult.commute)
qed

lemma uint_be16_bytes:
  "uint (push_bit 8 (ucast (a::byte)) OR ucast (b::byte) :: int32) = 256 * uint a + uint b"
proof -
  have "uint (push_bit 8 (ucast a) OR ucast b :: int32) = push_bit 8 (uint a) OR uint b"
    using uint_push_bit_ucast [of 8 a] by (simp add: uint_or uint_ucast_byte push_bit_eq_mult mult.commute)
  also have "\<dots> = 256 * uint a + uint b"
    using push_bit_or_add [of "uint b" 8 "uint a"] uint_byte_bounds [of b] by simp
  finally show ?thesis .
qed

lemma uint_be32_bytes:
  "uint (push_bit 24 (ucast (a::byte)) OR push_bit 16 (ucast (b::byte))
           OR push_bit 8 (ucast (c::byte)) OR ucast (d::byte) :: int32)
     = 16777216 * uint a + 65536 * uint b + 256 * uint c + uint d"
proof -
  let ?A = "uint a" and ?B = "uint b" and ?C = "uint c" and ?D = "uint d"
  have 1: "push_bit 8 ?C OR ?D = 256 * ?C + ?D"
    using push_bit_or_add [of ?D 8 ?C] uint_byte_bounds [of d] by simp
  have 2: "push_bit 16 ?B OR (256 * ?C + ?D) = 65536 * ?B + (256 * ?C + ?D)"
    using push_bit_or_add [of "256 * ?C + ?D" 16 ?B] uint_byte_bounds [of c] uint_byte_bounds [of d]
    by simp
  have 3: "push_bit 24 ?A OR (65536 * ?B + (256 * ?C + ?D))
             = 16777216 * ?A + (65536 * ?B + (256 * ?C + ?D))"
    using push_bit_or_add [of "65536 * ?B + (256 * ?C + ?D)" 24 ?A]
      uint_byte_bounds [of b] uint_byte_bounds [of c] uint_byte_bounds [of d]
    by simp
  have "uint (push_bit 24 (ucast a) OR push_bit 16 (ucast b) OR push_bit 8 (ucast c) OR ucast d :: int32)
      = push_bit 24 ?A OR (push_bit 16 ?B OR (push_bit 8 ?C OR ?D))"
    using uint_push_bit_ucast [of 24 a] uint_push_bit_ucast [of 16 b] uint_push_bit_ucast [of 8 c]
    by (simp add: uint_or uint_ucast_byte push_bit_eq_mult mult.commute or.assoc)
  then show ?thesis by (simp only: 1 2 3)
qed

lemma sint32_uint:
  "sint (w::int32) = (if uint w < 2147483648 then uint w else uint w - 4294967296)"
proof -
  have b: "0 \<le> uint w" "uint w < 4294967296"
    using uint_bounded [of w] by simp_all
  have "sint w = (uint w + 2147483648) mod 4294967296 - 2147483648"
    by (simp add: sint_uint signed_take_bit_eq_take_bit_shift take_bit_eq_mod)
  also have "\<dots> = (if uint w < 2147483648 then uint w else uint w - 4294967296)"
  proof (cases "uint w < 2147483648")
    case True
    then show ?thesis using b by (simp add: mod_pos_pos_trivial)
  next
    case False
    have e: "uint w + 2147483648 = uint w - 2147483648 + 4294967296" by simp
    have "(uint w + 2147483648) mod 4294967296 = (uint w - 2147483648 + 4294967296) mod 4294967296"
      by (subst e) (rule refl)
    also have "\<dots> = (uint w - 2147483648) mod 4294967296"
      by (simp only: mod_add_self2)
    also have "\<dots> = uint w - 2147483648"
      using False b by (simp add: mod_pos_pos_trivial)
    finally show ?thesis using False by simp
  qed
  finally show ?thesis .
qed

lemma in_range_sint_uint:
  "(100 \<le> sint (w::int32) \<and> sint w \<le> 4000) = (100 \<le> uint w \<and> uint w \<le> 4000)"
  using uint_bounded [of w] by (auto simp: sint32_uint split: if_splits)

lemma take2_drop:
  assumes "i + 2 \<le> length xs"
  shows "take 2 (drop i xs) = [xs ! i, xs ! (i + 1)]"
proof (rule nth_equalityI)
  show "length (take 2 (drop i xs)) = length [xs ! i, xs ! (i + 1)]" using assms by simp
next
  fix j
  assume "j < length (take 2 (drop i xs))"
  then have "j < 2" by simp
  then consider "j = 0" | "j = 1" by arith
  then show "take 2 (drop i xs) ! j = [xs ! i, xs ! (i + 1)] ! j"
    using assms by cases simp_all
qed

lemma take4_drop:
  assumes "i + 4 \<le> length xs"
  shows "take 4 (drop i xs) = [xs ! i, xs ! (i + 1), xs ! (i + 2), xs ! (i + 3)]"
proof (rule nth_equalityI)
  show "length (take 4 (drop i xs)) = length [xs ! i, xs ! (i + 1), xs ! (i + 2), xs ! (i + 3)]"
    using assms by simp
next
  fix j
  assume "j < length (take 4 (drop i xs))"
  then have "j < 4" by simp
  then consider "j = 0" | "j = 1" | "j = 2" | "j = 3" by arith
  then show "take 4 (drop i xs) ! j = [xs ! i, xs ! (i + 1), xs ! (i + 2), xs ! (i + 3)] ! j"
    using assms by cases simp_all
qed

lemma be32_big_endian:
  assumes "i + 4 \<le> length bytes"
  shows "uint (be32 bytes i) = big_endian (take 4 (drop i bytes))"
  using assms by (simp add: take4_drop be32_def byte_at_def ToInt32_def uint_be32_bytes big_endian_def)

lemma be16_big_endian:
  assumes "i + 2 \<le> length bytes"
  shows "sint (be16 bytes i) = big_endian (take 2 (drop i bytes))"
proof -
  have u: "uint (be16 bytes i) = big_endian (take 2 (drop i bytes))"
    using assms by (simp add: take2_drop be16_def byte_at_def ToInt32_def uint_be16_bytes big_endian_def)
  have "uint (be16 bytes i) < 65536"
    using assms uint_byte_bounds [of "bytes ! i"] uint_byte_bounds [of "bytes ! (i + 1)"]
    by (simp add: be16_def byte_at_def ToInt32_def uint_be16_bytes)
  then show ?thesis using u by (simp add: sint32_uint)
qed

subsection \<open>JPEG dimensions\<close>

lemmas validate_eval = validate_def MAX_FILE_SIZE_def MAGIC_BYTES_def every_magic_def byte_at_def
      dimensions_stage_def jpeg_loop.simps is_sof_def be16_def be32_def ToInt32_def check_dimensions_def
      MIN_DIMENSION_def MAX_DIMENSION_def png_check_def

lemma sample_jpeg_50: "validate (sample_jpeg 50 50) = Inl ImageTooSmall"
  by (simp add: sample_jpeg_def validate_eval)

lemma sample_jpeg_200: "validate (sample_jpeg 200 200) = Inr (jpeg, 1000)"
  by (simp add: sample_jpeg_def validate_eval)

lemma sample_jpeg_5000: "validate (sample_jpeg 5000 200) = Inl ImageTooLarge"
  by (simp add: sample_jpeg_def validate_eval)

lemma sample_jfif_50: "validate (sample_jfif 50 50) = Inl ImageTooSmall"
  by (simp add: sample_jfif_def validate_eval)

lemma sample_jfif_200: "validate (sample_jfif 200 200) = Inr (jpeg, 1000)"
  by (simp add: sample_jfif_def validate_eval)

lemma sample_png_4000: "validate (sample_png 4000 4000) = Inr (png, 1000)"
  by (simp add: sample_png_def validate_eval)

lemma sample_png_4001: "validate (sample_png 4001 4000) = Inl ImageTooLarge"
  by (simp add: sample_png_def validate_eval)

lemma sample_png_top_bit: "validate (sample_png 2147483648 4000) = Inl ImageTooSmall"
  by (simp add: sample_png_def validate_eval)

lemma segment_start_jpeg_loop:
  "segment_start bytes p \<Longrightarrow> jpeg_loop bytes 2 = jpeg_loop bytes p"
proof (induction rule: segment_start.induct)
  case after_SOI
  show ?case by (rule refl)
next
  case (skip p)
  have "jpeg_loop bytes p = jpeg_loop bytes (p + 2 + nat (sint (be16 bytes (p + 2))))"
    using skip.hyps(2,3,4) by (subst jpeg_loop.simps) simp
  with skip.IH show ?case by simp
qed

lemma jpeg_loop_sof:
  assumes "p < length bytes" "byte_at bytes p = Some 0xFF" "is_sof (byte_at bytes (p + 1))"
  shows "jpeg_loop bytes p =
    check_dimensions (sint (be16 bytes (p + 7))) (sint (be16 bytes (p + 5)))"
  using assms by (subst jpeg_loop.simps) (simp add: ac_simps)

lemma check_dimensions_ok:
  "(check_dimensions w h = Inr ()) = (100 \<le> w \<and> w \<le> 4000 \<and> 100 \<le> h \<and> h \<le> 4000)"
  by (auto simp: check_dimensions_def MIN_DIMENSION_def MAX_DIMENSION_def)

lemma validate_jpeg:
  assumes "1000 \<le> length bytes" "length bytes \<le> 5242880" "take 3 bytes = [0xFF, 0xD8, 0xFF]"
  shows "validate bytes =
     (case jpeg_loop bytes 2 of Inl e \<Rightarrow> Inl e | Inr u \<Rightarrow> Inr (jpeg, length bytes))"
  using assms
  by (simp add: validate_def MAX_FILE_SIZE_def detect_MAGIC_BYTES dimensions_stage_def
      split: sum.splits)

lemma validate_png:
  assumes "1000 \<le> length bytes" "length bytes \<le> 5242880" "take 4 bytes = [0x89, 0x50, 0x4E, 0x47]"
  shows "validate bytes =
     (case check_dimensions (sint (be32 bytes 16)) (sint (be32 bytes 20)) of
        Inl e \<Rightarrow> Inl e | Inr u \<Rightarrow> Inr (png, length bytes))"
proof -
  have "take 3 (take 4 bytes) = [0x89, 0x50, 0x4E]" by (simp only: assms(3)) simp
  then have "take 3 bytes \<noteq> [0xFF, 0xD8, 0xFF]" by simp
  then have "detect bytes MAGIC_BYTES = Some png"
    using assms(3) by (simp add: detect_MAGIC_BYTES)
  then show ?thesis
    using assms(1,2)
    by (simp add: validate_def MAX_FILE_SIZE_def dimensions_stage_def png_check_def
        split: sum.splits)
qed

text \<open>
  Claim C4, as amended. For bytes within the size bounds that start with \<open>FF D8 FF\<close>, the
  validator walks the segments after the 2-byte SOI. At the first segment whose marker
  byte \<open>m\<close> (at index \<open>p + 1\<close>, after the \<open>0xFF\<close> at \<open>p\<close>) lies in \<open>0xC0..0xCF\<close> and is
  none of \<open>0xC4\<close>, \<open>0xC8\<close>, \<open>0xCC\<close>, it reads the height as the 16-bit big-endian value
  4 bytes after the marker byte and the width 6 bytes after it, that is at \<open>offset + 3\<close>
  and \<open>offset + 5\<close> counted from the byte that follows the marker byte. It rejects with
  "Image too small" when either value is below 100, else with "Image too large" when
  either is above 4000, and accepts otherwise. A JPEG whose SOF0 segment encodes 50 by 50
  is rejected as too small, 200 by 200 is accepted, width 5000 and height 200 is rejected
  as too large.
\<close>

theorem jpeg_dimensions:
  "(1000 \<le> length bytes \<and> length bytes \<le> 5242880 \<and> take 3 bytes = [0xFF, 0xD8, 0xFF] \<and>
    segment_start bytes p \<and> p < length bytes \<and> byte_at bytes p = Some 0xFF \<and>
    byte_at bytes (p + 1) = Some m \<and>
    0xC0 \<le> m \<and> m \<le> 0xCF \<and> m \<noteq> 0xC4 \<and> m \<noteq> 0xC8 \<and> m \<noteq> 0xCC \<longrightarrow>
      validate bytes =
        (case check_dimensions (sint (be16 bytes (p + 1 + 6))) (sint (be16 bytes (p + 1 + 4))) of
           Inl e \<Rightarrow> Inl e
         | Inr u \<Rightarrow> Inr (jpeg, length bytes)) \<and>
      (p + 1 + 8 \<le> length bytes \<longrightarrow>
         sint (be16 bytes (p + 1 + 4)) = big_endian (take 2 (drop (p + 1 + 4) bytes)) \<and>
         sint (be16 bytes (p + 1 + 6)) = big_endian (take 2 (drop (p + 1 + 6) bytes)))) \<and>
   (check_dimensions w h =
      (if w < 100 \<or> h < 100 then Inl ImageTooSmall
       else if w > 4000 \<or> h > 4000 then Inl ImageTooLarge else Inr ())) \<and>
   validate (sample_jpeg 50 50) = Inl ImageTooSmall \<and>
   validate (sample_jpeg 200 200) = Inr (jpeg, 1000) \<and>
   validate (sample_jpeg 5000 200) = Inl ImageTooLarge"
proof -
  have walk: "validate bytes =
        (case check_dimensions (sint (be16 bytes (p + 1 + 6))) (sint (be16 bytes (p + 1 + 4))) of
           Inl e \<Rightarrow> Inl e
         | Inr u \<Rightarrow> Inr (jpeg, length bytes))"
    if "1000 \<le> length bytes" "length bytes \<le> 5242880" "take 3 bytes = [0xFF, 0xD8, 0xFF]"
      "segment_start bytes p" "p < length bytes" "byte_at bytes p = Some 0xFF"
      "is_sof (byte_at bytes (p + 1))"
  proof -
    have "jpeg_loop bytes 2 = jpeg_loop bytes p"
      using that(4) by (rule segment_start_jpeg_loop)
    also have "\<dots> = check_dimensions (sint (be16 bytes (p + 7))) (sint (be16 bytes (p + 5)))"
      using that(5,6,7) by (rule jpeg_loop_sof)
    finally show ?thesis
      using validate_jpeg [OF that(1,2,3)] by (simp add: ac_simps)
  qed
  have num: "sint (be16 bytes (p + 1 + 4)) = big_endian (take 2 (drop (p + 1 + 4) bytes)) \<and>
         sint (be16 bytes (p + 1 + 6)) = big_endian (take 2 (drop (p + 1 + 6) bytes))"
    if "p + 1 + 8 \<le> length bytes"
    using that by (simp add: be16_big_endian)
  have gate: "check_dimensions w h =
      (if w < 100 \<or> h < 100 then Inl ImageTooSmall
       else if w > 4000 \<or> h > 4000 then Inl ImageTooLarge else Inr ())"
    by (simp add: check_dimensions_def MIN_DIMENSION_def MAX_DIMENSION_def)
  show ?thesis
    using walk num gate sample_jpeg_50 sample_jpeg_200 sample_jpeg_5000 by (simp add: is_sof_def)
qed

lemma jfif_segment: "segment_start (sample_jfif w h) 20"
  using segment_start.skip [OF segment_start.after_SOI, of "sample_jfif w h"]
  by (simp add: sample_jfif_def byte_at_def is_sof_def be16_def ToInt32_def)

lemma jfif_length: "length (sample_jfif w h) = 1000"
  by (simp add: sample_jfif_def)


theorem jpeg_dimensions_witness:
  "segment_start (sample_jfif 200 5000) 20 \<and>
   byte_at (sample_jfif 200 5000) 20 = Some 0xFF \<and>
   byte_at (sample_jfif 200 5000) 21 = Some 0xC0 \<and>
   big_endian (take 2 (drop 25 (sample_jfif 200 5000))) = 5000 \<and>
   big_endian (take 2 (drop 27 (sample_jfif 200 5000))) = 200 \<and>
   validate (sample_jfif 200 5000) = Inl ImageTooLarge"
proof -
  have s: "segment_start (sample_jfif 200 5000) 20" by (rule jfif_segment)
  have b: "byte_at (sample_jfif 200 5000) 20 = Some 0xFF"
    "byte_at (sample_jfif 200 5000) 21 = Some 0xC0"
    "take 3 (sample_jfif 200 5000) = [0xFF, 0xD8, 0xFF]"
    by (simp_all add: sample_jfif_def byte_at_def)
  have v: "big_endian (take 2 (drop 25 (sample_jfif 200 5000))) = 5000"
    "big_endian (take 2 (drop 27 (sample_jfif 200 5000))) = 200"
    by (simp_all add: sample_jfif_def big_endian_def)
  show ?thesis
    using jpeg_dimensions [of "sample_jfif 200 5000" 20 "0xC0"] s b v
    by (simp add: jfif_length check_dimensions_def MIN_DIMENSION_def MAX_DIMENSION_def)
qed

text \<open>
  Claim C4 as stated counts the two offsets from the marker byte itself. In the JPEG
  whose SOF0 segment encodes 200 by 200 the marker byte \<open>0xC0\<close> is at index 3; the 16-bit
  values at index \<open>3 + 3\<close> and \<open>3 + 5\<close> are 2048 and 51200, which the dimension check
  would reject, yet the validator accepts the image.
\<close>

theorem jpeg_offsets_counterexample:
  "byte_at (sample_jpeg 200 200) 2 = Some 0xFF \<and>
   byte_at (sample_jpeg 200 200) 3 = Some 0xC0 \<and>
   sint (be16 (sample_jpeg 200 200) (3 + 3)) = 2048 \<and>
   sint (be16 (sample_jpeg 200 200) (3 + 5)) = 51200 \<and>
   check_dimensions 51200 2048 = Inl ImageTooLarge \<and>
   validate (sample_jpeg 200 200) = Inr (jpeg, 1000)"
  by (simp add: sample_jpeg_200) (simp add: sample_jpeg_def byte_at_def be16_def ToInt32_def
      check_dimensions_def MIN_DIMENSION_def MAX_DIMENSION_def)


subsection \<open>PNG dimensions\<close>

text \<open>
  Claim C5. For bytes within the size bounds that start with \<open>89 50 4E 47\<close> (so of at least
  24 bytes), the two values the validator checks are the big-endian 32-bit integers at
  byte offsets 16 (width) and 20 (height); it accepts exactly when both lie between 100
  and 4000. The values are compared as signed 32-bit integers, so a value with the top
  bit set is rejected as too small. The PNG branch applies the check to every sequence
  of at least 24 bytes. A PNG with width 4000 and height 4000 is accepted, width 4001 is
  rejected.
\<close>

theorem png_dimensions:
  "(1000 \<le> length bytes \<and> length bytes \<le> 5242880 \<and> take 4 bytes = [0x89, 0x50, 0x4E, 0x47] \<longrightarrow>
      uint (be32 bytes 16) = big_endian (take 4 (drop 16 bytes)) \<and>
      uint (be32 bytes 20) = big_endian (take 4 (drop 20 bytes)) \<and>
      validate bytes =
        (case check_dimensions (sint (be32 bytes 16)) (sint (be32 bytes 20)) of
           Inl e \<Rightarrow> Inl e
         | Inr u \<Rightarrow> Inr (png, length bytes)) \<and>
      (validate bytes = Inr (png, length bytes)) =
        (100 \<le> big_endian (take 4 (drop 16 bytes)) \<and> big_endian (take 4 (drop 16 bytes)) \<le> 4000 \<and>
         100 \<le> big_endian (take 4 (drop 20 bytes)) \<and> big_endian (take 4 (drop 20 bytes)) \<le> 4000)) \<and>
   (24 \<le> length bytes \<longrightarrow>
      dimensions_stage png bytes =
        check_dimensions (sint (be32 bytes 16)) (sint (be32 bytes 20))) \<and>
   validate (sample_png 4000 4000) = Inr (png, 1000) \<and>
   validate (sample_png 4001 4000) = Inl ImageTooLarge"
proof -
  have main: "uint (be32 bytes 16) = big_endian (take 4 (drop 16 bytes)) \<and>
      uint (be32 bytes 20) = big_endian (take 4 (drop 20 bytes)) \<and>
      validate bytes =
        (case check_dimensions (sint (be32 bytes 16)) (sint (be32 bytes 20)) of
           Inl e \<Rightarrow> Inl e
         | Inr u \<Rightarrow> Inr (png, length bytes)) \<and>
      (validate bytes = Inr (png, length bytes)) =
        (100 \<le> big_endian (take 4 (drop 16 bytes)) \<and> big_endian (take 4 (drop 16 bytes)) \<le> 4000 \<and>
         100 \<le> big_endian (take 4 (drop 20 bytes)) \<and> big_endian (take 4 (drop 20 bytes)) \<le> 4000)"
    if a: "1000 \<le> length bytes" "length bytes \<le> 5242880" "take 4 bytes = [0x89, 0x50, 0x4E, 0x47]"
  proof -
    have w: "uint (be32 bytes 16) = big_endian (take 4 (drop 16 bytes))"
      using a(1) by (intro be32_big_endian) simp
    have h: "uint (be32 bytes 20) = big_endian (take 4 (drop 20 bytes))"
      using a(1) by (intro be32_big_endian) simp
    have v: "validate bytes =
        (case check_dimensions (sint (be32 bytes 16)) (sint (be32 bytes 20)) of
           Inl e \<Rightarrow> Inl e
         | Inr u \<Rightarrow> Inr (png, length bytes))"
      using a by (rule validate_png)
    have "(validate bytes = Inr (png, length bytes)) =
        (check_dimensions (sint (be32 bytes 16)) (sint (be32 bytes 20)) = Inr ())"
      by (simp add: v split: sum.splits)
    also have "\<dots> = ((100 \<le> sint (be32 bytes 16) \<and> sint (be32 bytes 16) \<le> 4000) \<and>
        (100 \<le> sint (be32 bytes 20) \<and> sint (be32 bytes 20) \<le> 4000))"
      by (simp add: check_dimensions_ok)
    also have "\<dots> = ((100 \<le> uint (be32 bytes 16) \<and> uint (be32 bytes 16) \<le> 4000) \<and>
        (100 \<le> uint (be32 bytes 20) \<and> uint (be32 bytes 20) \<le> 4000))"
      by (simp only: in_range_sint_uint)
    finally show ?thesis using w h v by simp
  qed
  have stage: "dimensions_stage png bytes =
        check_dimensions (sint (be32 bytes 16)) (sint (be32 bytes 20))"
    if "24 \<le> length bytes"
    using that by (simp add: dimensions_stage_def png_check_def)
  show ?thesis using main stage sample_png_4000 sample_png_4001 by blast
qed

lemma png_length: "length (sample_png w h) = 1000"
  by (simp add: sample_png_def)

theorem png_dimensions_witness:
  "big_endian (take 4 (drop 16 (sample_png 640 99))) = 640 \<and>
   big_endian (take 4 (drop 20 (sample_png 640 99))) = 99 \<and>
   validate (sample_png 640 99) = Inl ImageTooSmall \<and>
   dimensions_stage png (sample_png 640 99) = Inl ImageTooSmall"
proof -
  have t: "take 4 (sample_png 640 99) = [0x89, 0x50, 0x4E, 0x47]"
    by (simp add: sample_png_def)
  have v: "big_endian (take 4 (drop 16 (sample_png 640 99))) = 640"
    "big_endian (take 4 (drop 20 (sample_png 640 99))) = 99"
    by (simp_all add: sample_png_def big_endian_def)
  have "sint (be32 (sample_png 640 99) 16) = 640" "sint (be32 (sample_png 640 99) 20) = 99"
    using png_dimensions [of "sample_png 640 99"] t v 
    by (simp_all add: png_length sint32_uint)
  then show ?thesis
    using png_dimensions [of "sample_png 640 99"] t v
    by (simp add: png_length check_dimensions_def MIN_DIMENSION_def MAX_DIMENSION_def)
qed

subsection \<open>RIFF containers\<close>

text \<open>
  Claim C10. Every byte sequence of 1000 to 5,242,880 bytes that starts with
  \<open>52 49 46 46\<close> ("RIFF") is accepted as format \<open>webp\<close>, whatever the bytes after the
  fourth are: no dimension is checked and the tag at offset 8 is not read, so a WAVE
  file is accepted as well.
\<close>

theorem riff_accepted:
  "1000 \<le> 4 + length rest \<and> 4 + length rest \<le> 5242880 \<longrightarrow>
     validate ([0x52, 0x49, 0x46, 0x46] @ rest) = Inr (webp, 4 + length rest) \<and>
     dimensions_stage webp ([0x52, 0x49, 0x46, 0x46] @ rest) = Inr () \<and>
     (req_method req \<noteq> ''OPTIONS'' \<and>
      snd (decode_request plat req) = Inr ([0x52, 0x49, 0x46, 0x46] @ rest) \<longrightarrow>
        fst (serve plat req) = Valid webp (4 + length rest))"
proof -
  let ?bytes = "[0x52, 0x49, 0x46, 0x46] @ rest"
  have d: "detect ?bytes MAGIC_BYTES = Some webp"
    by (simp add: detect_MAGIC_BYTES)
  have s: "dimensions_stage webp ?bytes = Inr ()"
    by (simp add: dimensions_stage_def)
  have v: "validate ?bytes = Inr (webp, 4 + length rest)"
    if "1000 \<le> 4 + length rest" "4 + length rest \<le> 5242880"
    using that d s by (simp add: validate_def MAX_FILE_SIZE_def)
  show ?thesis
    using v s serve_decoded [of req plat ?bytes] by (auto simp: respond_def)
qed

theorem riff_accepted_witness:
  "validate wav_file = Inr (webp, 1000) \<and>
   take 4 (drop 8 wav_file) = [0x57, 0x41, 0x56, 0x45] \<and>
   fst (serve (sample_platform wav_file) (sample_request ''jpeg'' ''alice'')) = Valid webp 1000"
  using riff_accepted [of "[0xE0, 0x03, 0x00, 0x00, 0x57, 0x41, 0x56, 0x45] @ replicate 988 0"
      "sample_request ''jpeg'' ''alice''" "sample_platform wav_file"]
  by (simp add: wav_file_def sample_decoded [unfolded wav_file_def] sample_method)

subsection \<open>The owner check\<close>

text \<open>
  Claim C8. When the request carries a credential (a non-empty Authorization header) that
  the authentication service resolves to a user, and that user differs from the \<open>userId\<close>
  of the request, the handler answers with the authorization error "Unauthorized: Cannot
  upload for another user", which is none of the validation errors. The only call made
  is the one to the
  authentication service: the profile is not read and nothing is decoded, so the
  validator is not reached; the answer is the same for any other image data and any
  other decoder.
\<close>

theorem owner_check_first:
  assumes "req_method req \<noteq> ''OPTIONS''"
    and "authorization req = Some authHeader"
    and "authHeader \<noteq> []"
    and "getUser plat (replace_first ''Bearer '' [] authHeader) = Some owner"
    and "owner \<noteq> userId (json req)"
  shows "serve plat req =
           (Invalid ''Unauthorized: Cannot upload for another user'',
            [AuthGetUser (replace_first ''Bearer '' [] authHeader)]) \<and>
         try_block plat req =
           ([AuthGetUser (replace_first ''Bearer '' [] authHeader)], Inl CannotUploadForAnotherUser) \<and>
         CannotUploadForAnotherUser \<notin> set validation_errors \<and>
         list_all (\<lambda>e. fst (serve plat req) \<noteq> Invalid (message e)) validation_errors \<and>
         serve plat (req\<lparr>json := (json req)\<lparr>imageData := other\<rparr>\<rparr>) = serve plat req \<and>
         serve (plat\<lparr>atob := decoder, select_face_photos := store\<rparr>) req = serve plat req"
proof -
  let ?token = "replace_first ''Bearer '' [] authHeader"
  have d: "decode_request plat req = ([AuthGetUser ?token], Inl CannotUploadForAnotherUser)"
    using assms(2,3,4,5) by (simp add: decode_request_def)
  have d': "decode_request plat (req\<lparr>json := (json req)\<lparr>imageData := other\<rparr>\<rparr>)
      = ([AuthGetUser ?token], Inl CannotUploadForAnotherUser)"
    using assms(2,3,4,5) by (simp add: decode_request_def)
  have d'': "decode_request (plat\<lparr>atob := decoder, select_face_photos := store\<rparr>) req
      = ([AuthGetUser ?token], Inl CannotUploadForAnotherUser)"
    using assms(2,3,4,5) by (simp add: decode_request_def)
  have t: "try_block plat req = ([AuthGetUser ?token], Inl CannotUploadForAnotherUser)"
    by (simp add: try_block_def d)
  have s: "serve plat req = (Invalid ''Unauthorized: Cannot upload for another user'', [AuthGetUser ?token])"
    using assms(1) by (simp add: serve_def t respond_def)
  have s': "serve plat (req\<lparr>json := (json req)\<lparr>imageData := other\<rparr>\<rparr>) = serve plat req"
    using assms(1) by (simp add: serve_def try_block_def d d')
  have s'': "serve (plat\<lparr>atob := decoder, select_face_photos := store\<rparr>) req = serve plat req"
    using assms(1) by (simp add: serve_def try_block_def d d'')
  have n: "list_all (\<lambda>e. fst (serve plat req) \<noteq> Invalid (message e)) validation_errors"
    by (simp add: s validation_errors_def)
  show ?thesis using s t s' s'' n by (simp add: validation_errors_def)
qed

theorem owner_check_first_witness:
  "authorization (sample_request ''jpeg'' ''bob'') = Some ''Bearer t1'' \<and>
   getUser (sample_platform wav_file) ''t1'' = Some ''alice'' \<and>
   serve (sample_platform wav_file) (sample_request ''jpeg'' ''bob'') =
     (Invalid ''Unauthorized: Cannot upload for another user'', [AuthGetUser ''t1''])"
  using owner_check_first [of "sample_request ''jpeg'' ''bob''" "''Bearer t1''"
      "sample_platform wav_file" "''alice''"]
  by (simp add: sample_request_def sample_platform_def)

text \<open>
  A request without a credential is not an authenticated one: an absent header and an
  empty header value are both answered "Missing authorization header", and the
  authentication service is not called.
\<close>

lemma missing_header:
  assumes "req_method req \<noteq> ''OPTIONS''"
    and "authorization req = None \<or> authorization req = Some []"
  shows "serve plat req = (Invalid ''Missing authorization header'', [])"
  using assms by (auto simp: serve_def try_block_def decode_request_def respond_def)

section \<open>Properties of the browser pages\<close>

subsection \<open>The stages of \<open>sendAttendance\<close>\<close>

lemma capture_image_shape:
  assumes "capture_image env uid prof = (uploaded, res)"
  shows "uploaded = [] \<or>
         (\<exists>path blob r. uploaded = [StorageUpload path blob r] \<and> r \<noteq> Resolved () \<and>
            (res = Inl () \<or> res = Inr None)) \<or>
         (\<exists>path blob n r. uploaded =
            [StorageUpload path blob (Resolved ()), StorageCreateSignedUrl path n r])"
  using assms
  by (auto simp: capture_image_def Let_def split: option.splits outcome.splits if_splits)

lemma statuses_append: "statuses (xs @ ys) = statuses xs @ statuses ys"
  by (induction xs rule: statuses.induct) simp_all

lemma records_created_append:
  "records_created (xs @ ys) = records_created xs @ records_created ys"
  by (induction xs rule: records_created.induct) simp_all

lemma capture_image_readings:
  assumes "capture_image env uid prof = (uploaded, res)"
  shows "statuses (uploaded @ xs) = statuses xs"
    and "records_created (uploaded @ xs) = records_created xs"
    and "filter (is_invocation name) (uploaded @ xs) = filter (is_invocation name) xs"
    and "map forget_vector uploaded = uploaded"
    and "DbInsert row r \<notin> set uploaded"
    and "filter (is_invocation name) uploaded = []"
  using capture_image_shape [OF assms] by auto

lemma catch_block_readings:
  "statuses catch_block = [Error, Scanning]"
  "records_created catch_block = []"
  "filter (is_invocation name) catch_block = []"
  "map forget_vector catch_block = catch_block"
  "DbInsert row r \<notin> set catch_block"
  "StorageUpload path blob s \<notin> set catch_block"
  by (simp_all add: catch_block_def)

lemma save_and_notify_statuses:
  "statuses (save_and_notify env uid prof vector imageUrl) =
     (case db_insert env of Rejected m \<Rightarrow> [Error, Scanning] | Failed m \<Rightarrow> [Success, Completed]
      | Resolved u \<Rightarrow> [Success, Completed])"
  by (simp add: save_and_notify_def send_email_def catch_block_def Let_def split: outcome.splits)

lemma save_and_notify_records:
  "records_created (save_and_notify env uid prof vector imageUrl) =
     (case db_insert env of Rejected m \<Rightarrow> [] | Failed m \<Rightarrow> []
      | Resolved u \<Rightarrow> [new_row uid prof vector imageUrl])"
  by (simp add: save_and_notify_def send_email_def catch_block_def Let_def new_row_def
      split: outcome.splits)

lemma save_and_notify_emails:
  "length (filter (is_invocation ''send-attendance-email'')
     (save_and_notify env uid prof vector imageUrl)) =
     (case db_insert env of Rejected m \<Rightarrow> 0 | Failed m \<Rightarrow> 1 | Resolved u \<Rightarrow> 1)"
  by (simp add: save_and_notify_def send_email_def catch_block_def Let_def split: outcome.splits)

lemma save_and_notify_no_validation:
  "filter (is_invocation ''validate-face-image'')
     (save_and_notify env uid prof vector imageUrl) = []"
  by (simp add: save_and_notify_def send_email_def catch_block_def Let_def split: outcome.splits)

lemma save_and_notify_insert:
  "(DbInsert row r \<in> set (save_and_notify env uid prof vector imageUrl)) =
     (r = db_insert env \<and> row = new_row uid prof vector imageUrl)"
  by (auto simp: save_and_notify_def send_email_def catch_block_def Let_def new_row_def
      split: outcome.splits)

lemma save_and_notify_no_upload:
  "StorageUpload path blob s \<notin> set (save_and_notify env uid prof vector imageUrl)"
  by (simp add: save_and_notify_def send_email_def catch_block_def Let_def split: outcome.splits)

lemma save_and_notify_forget:
  "map forget_vector (save_and_notify env uid prof v1 imageUrl) =
   map forget_vector (save_and_notify env uid prof v2 imageUrl)"
  by (simp add: save_and_notify_def send_email_def catch_block_def Let_def split: outcome.splits)

lemma sendAttendance_insert:
  assumes "DbInsert row r \<in> set (sendAttendance env vector)"
  obtains uid prof uploaded imageUrl where
    "user env = Some uid" "user_profile env = Some prof"
    "capture_image env uid prof = (uploaded, Inr imageUrl)"
    "sendAttendance env vector = uploaded @ save_and_notify env uid prof vector imageUrl"
    "r = db_insert env" "row = new_row uid prof vector imageUrl"
proof (cases "user env")
  case None
  with assms show ?thesis by (simp add: sendAttendance_def)
next
  case (Some uid)
  note u = this
  show ?thesis
  proof (cases "user_profile env")
    case None
    with assms u show ?thesis by (simp add: sendAttendance_def)
  next
    case (Some prof)
    note p = this
    obtain uploaded res where c: "capture_image env uid prof = (uploaded, res)"
      by (cases "capture_image env uid prof")
    show ?thesis
    proof (cases res)
      case (Inl a)
      then have "sendAttendance env vector = uploaded @ catch_block"
        using u p c by (simp add: sendAttendance_def)
      with assms capture_image_readings(5) [OF c] catch_block_readings(5)
      show ?thesis by simp
    next
      case (Inr imageUrl)
      then have s: "sendAttendance env vector = uploaded @ save_and_notify env uid prof vector imageUrl"
        using u p c by (simp add: sendAttendance_def)
      with assms capture_image_readings(5) [OF c]
      have "DbInsert row r \<in> set (save_and_notify env uid prof vector imageUrl)" by simp
      then have "r = db_insert env" "row = new_row uid prof vector imageUrl"
        by (simp_all add: save_and_notify_insert)
      with u p c Inr s that show ?thesis by simp
    qed
  qed
qed

lemmas run_defs = sendAttendance_def handleCapture_def capture_image_def save_and_notify_def
  send_email_def catch_block_def

lemma sendAttendance_forms:
  obtains "sendAttendance env vector = []"
  | uid prof uploaded where "capture_image env uid prof = (uploaded, Inl ())"
      "sendAttendance env vector = uploaded @ catch_block"
  | uid prof uploaded imageUrl where "capture_image env uid prof = (uploaded, Inr imageUrl)"
      "sendAttendance env vector = uploaded @ save_and_notify env uid prof vector imageUrl"
proof (cases "user env")
  case None
  then show ?thesis using that(1) by (simp add: sendAttendance_def)
next
  case (Some uid)
  note u = this
  show ?thesis
  proof (cases "user_profile env")
    case None
    then show ?thesis using that(1) u by (simp add: sendAttendance_def)
  next
    case (Some prof)
    note p = this
    obtain uploaded res where c: "capture_image env uid prof = (uploaded, res)"
      by (cases "capture_image env uid prof")
    show ?thesis
    proof (cases res)
      case (Inl a)
      then show ?thesis using that(2) [of uid prof uploaded] u p c
        by (simp add: sendAttendance_def)
    next
      case (Inr imageUrl)
      then show ?thesis using that(3) [of uid prof uploaded imageUrl] u p c
        by (simp add: sendAttendance_def)
    qed
  qed
qed

lemma sendAttendance_no_validation:
  "filter (is_invocation ''validate-face-image'') (sendAttendance env vector) = []"
proof (cases rule: sendAttendance_forms [of env vector])
  case 1
  then show ?thesis by simp
next
  case (2 uid prof uploaded)
  then show ?thesis
    by (simp add: capture_image_readings(6) [OF 2(1)] catch_block_readings)
next
  case (3 uid prof uploaded imageUrl)
  then show ?thesis
    by (simp add: capture_image_readings(6) [OF 3(1)] save_and_notify_no_validation)
qed

lemma sendAttendance_forget:
  "map forget_vector (sendAttendance env v1) = map forget_vector (sendAttendance env v2)"
proof (cases "user env")
  case None
  then show ?thesis by (simp add: sendAttendance_def)
next
  case (Some uid)
  note u = this
  show ?thesis
  proof (cases "user_profile env")
    case None
    then show ?thesis using u by (simp add: sendAttendance_def)
  next
    case (Some prof)
    obtain uploaded res where c: "capture_image env uid prof = (uploaded, res)"
      by (cases "capture_image env uid prof")
    show ?thesis
      using u Some c save_and_notify_forget [of env uid prof v1 _ v2]
      by (cases res) (simp_all add: sendAttendance_def)
  qed
qed

lemma handleCapture_forms:
  "handleCapture (env\<lparr>detectSingleFace := Face vector\<rparr>) = [] \<or>
   handleCapture (env\<lparr>detectSingleFace := Face vector\<rparr>) =
     SetIsProcessing True # sendAttendance (env\<lparr>detectSingleFace := Face vector\<rparr>) vector"
  by (simp add: handleCapture_def)

lemma capture_image_detect:
  "capture_image (env\<lparr>detectSingleFace := d\<rparr>) uid prof = capture_image env uid prof"
  by (simp add: capture_image_def Let_def split: option.splits outcome.splits)

lemma save_and_notify_detect:
  "save_and_notify (env\<lparr>detectSingleFace := d\<rparr>) uid prof vector imageUrl =
   save_and_notify env uid prof vector imageUrl"
  by (simp add: save_and_notify_def send_email_def Let_def split: outcome.splits)

lemma sendAttendance_detect:
  "sendAttendance (env\<lparr>detectSingleFace := d\<rparr>) vector = sendAttendance env vector"
  by (simp add: sendAttendance_def capture_image_detect save_and_notify_detect
      cong: option.case_cong sum.case_cong)

text \<open>
  What \<open>sendAttendance\<close> does with a failed insert, in general. When the insert resolves
  with an error, the run still sets the success status, sends one notification and ends
  completed, and no row is stored. When the insert call rejects, the run sets the error
  status, returns to scanning, and sends no notification.
\<close>

theorem insert_failure:
  "(DbInsert row (Failed m) \<in> set (sendAttendance env vector) \<longrightarrow>
      statuses (sendAttendance env vector) = [Success, Completed] \<and>
      length (filter (is_invocation ''send-attendance-email'') (sendAttendance env vector)) = 1 \<and>
      records_created (sendAttendance env vector) = []) \<and>
   (DbInsert row (Rejected m) \<in> set (sendAttendance env vector) \<longrightarrow>
      statuses (sendAttendance env vector) = [Error, Scanning] \<and>
      filter (is_invocation ''send-attendance-email'') (sendAttendance env vector) = [] \<and>
      records_created (sendAttendance env vector) = [])"
proof (intro conjI impI)
  assume ins: "DbInsert row (Failed m) \<in> set (sendAttendance env vector)"
  from ins obtain uid prof uploaded imageUrl where
    c: "capture_image env uid prof = (uploaded, Inr imageUrl)" and
    s: "sendAttendance env vector = uploaded @ save_and_notify env uid prof vector imageUrl" and
    d: "Failed m = db_insert env"
    by (rule sendAttendance_insert)
  show "statuses (sendAttendance env vector) = [Success, Completed]"
    using d [symmetric] by (simp add: s capture_image_readings(1) [OF c] save_and_notify_statuses)
  show "length (filter (is_invocation ''send-attendance-email'') (sendAttendance env vector)) = 1"
    using d [symmetric] save_and_notify_emails [of env uid prof vector imageUrl]
    by (simp only: s capture_image_readings(3) [OF c]) simp
  show "records_created (sendAttendance env vector) = []"
    using d [symmetric] by (simp add: s capture_image_readings(2) [OF c] save_and_notify_records)
next
  assume ins: "DbInsert row (Rejected m) \<in> set (sendAttendance env vector)"
  from ins obtain uid prof uploaded imageUrl where
    c: "capture_image env uid prof = (uploaded, Inr imageUrl)" and
    s: "sendAttendance env vector = uploaded @ save_and_notify env uid prof vector imageUrl" and
    d: "Rejected m = db_insert env"
    by (rule sendAttendance_insert)
  show "statuses (sendAttendance env vector) = [Error, Scanning]"
    using d [symmetric] by (simp add: s capture_image_readings(1) [OF c] save_and_notify_statuses)
  have "length (filter (is_invocation ''send-attendance-email'') (sendAttendance env vector)) = 0"
    using d [symmetric] save_and_notify_emails [of env uid prof vector imageUrl]
    by (simp only: s capture_image_readings(3) [OF c]) simp
  then show "filter (is_invocation ''send-attendance-email'') (sendAttendance env vector) = []"
    by simp
  show "records_created (sendAttendance env vector) = []"
    using d [symmetric] by (simp add: s capture_image_readings(2) [OF c] save_and_notify_records)
qed

text \<open>
  Claim C9. Every row that \<open>sendAttendance\<close> inserts has status "present" and confidence
  score 0.90, and carries the captured descriptor as its face vector. Two runs that differ
  only in the descriptor make the same calls with the same results and set the same
  statuses; they differ in nothing but the face vector of the inserted row. The same holds
  for \<open>handleCapture\<close> when the detector returns a descriptor. No call compares the
  descriptor with an enrolled photo.
\<close>

theorem descriptor_ignored:
  "(DbInsert row r \<in> set (sendAttendance env vector) \<longrightarrow>
      status row = ''present'' \<and> confidence_score row = 0.90 \<and> face_vector row = vector) \<and>
   map forget_vector (sendAttendance env v1) = map forget_vector (sendAttendance env v2) \<and>
   (DbInsert row r \<in> set (handleCapture (env\<lparr>detectSingleFace := Face vector\<rparr>)) \<longrightarrow>
      status row = ''present'' \<and> confidence_score row = 0.90 \<and> face_vector row = vector) \<and>
   map forget_vector (handleCapture (env\<lparr>detectSingleFace := Face v1\<rparr>)) =
     map forget_vector (handleCapture (env\<lparr>detectSingleFace := Face v2\<rparr>))"
proof -
  have a: "status row = ''present'' \<and> confidence_score row = 0.90 \<and> face_vector row = vector"
    if "DbInsert row r \<in> set (sendAttendance env vector)" for env
  proof -
    from that obtain uid prof imageUrl where "row = new_row uid prof vector imageUrl"
      by (rule sendAttendance_insert)
    then show ?thesis by (simp add: new_row_def)
  qed
  have b: "status row = ''present'' \<and> confidence_score row = 0.90 \<and> face_vector row = vector"
    if "DbInsert row r \<in> set (handleCapture (env\<lparr>detectSingleFace := Face vector\<rparr>))"
    using that a [where env = "env\<lparr>detectSingleFace := Face vector\<rparr>"]
      handleCapture_forms [where env = env and vector = vector]
    by auto
  have c: "map forget_vector (handleCapture (env\<lparr>detectSingleFace := Face v1\<rparr>)) =
     map forget_vector (handleCapture (env\<lparr>detectSingleFace := Face v2\<rparr>))"
    using sendAttendance_forget [of env v1 v2]
    by (simp add: handleCapture_def sendAttendance_detect)
  show ?thesis using a [where env = env] b c sendAttendance_forget [of env v1 v2] by blast
qed

subsection \<open>Sample runs of the attendance page\<close>




text \<open>
  Claim C2 says that a failed insert of the attendance row ends the submission in the
  error state with no notification sent. In the run below the insert into
  \<open>attendance_records\<close> resolves with the error "permission denied"; \<open>sendAttendance\<close>
  logs the error, sets the success status, invokes \<open>send-attendance-email\<close> once and ends
  completed.
\<close>

theorem insert_error_marked_success:
  "DbInsert
     \<lparr>user_id = ''alice'', row_roll_number = ''R1'', student_name = ''Alice'',
      row_email = ''alice@example.org'', confidence_score = 0.90, status = ''present'',
      face_vector = [0.25, 0.5], image_url = Some ''https://storage.example/signed''\<rparr>
     (Failed ''permission denied'')
     \<in> set (sendAttendance (sample_camera\<lparr>db_insert := Failed ''permission denied''\<rparr>) [0.25, 0.5]) \<and>
   statuses (sendAttendance (sample_camera\<lparr>db_insert := Failed ''permission denied''\<rparr>) [0.25, 0.5])
     = [Success, Completed] \<and>
   length (filter (is_invocation ''send-attendance-email'')
     (sendAttendance (sample_camera\<lparr>db_insert := Failed ''permission denied''\<rparr>) [0.25, 0.5])) = 1"
  by (simp add: run_defs sample_camera_def Let_def)

theorem insert_failure_witness:
  "statuses (sendAttendance (sample_camera\<lparr>db_insert := Rejected ''network''\<rparr>) [0.25, 0.5])
     = [Error, Scanning] \<and>
   filter (is_invocation ''send-attendance-email'')
     (sendAttendance (sample_camera\<lparr>db_insert := Rejected ''network''\<rparr>) [0.25, 0.5]) = [] \<and>
   records_created (sendAttendance (sample_camera\<lparr>db_insert := Failed ''permission denied''\<rparr>) [0.25, 0.5]) = []"
  using
    insert_failure [of
      "\<lparr>user_id = ''alice'', row_roll_number = ''R1'', student_name = ''Alice'',
        row_email = ''alice@example.org'', confidence_score = 0.90, status = ''present'',
        face_vector = [0.25, 0.5], image_url = Some ''https://storage.example/signed''\<rparr>"
      "''network''" "sample_camera\<lparr>db_insert := Rejected ''network''\<rparr>" "[0.25, 0.5]"]
    insert_failure [of
      "\<lparr>user_id = ''alice'', row_roll_number = ''R1'', student_name = ''Alice'',
        row_email = ''alice@example.org'', confidence_score = 0.90, status = ''present'',
        face_vector = [0.25, 0.5], image_url = Some ''https://storage.example/signed''\<rparr>"
      "''permission denied''" "sample_camera\<lparr>db_insert := Failed ''permission denied''\<rparr>" "[0.25, 0.5]"]
  by (simp add: run_defs sample_camera_def Let_def)

theorem descriptor_ignored_witness:
  "records_created (handleCapture (sample_camera\<lparr>detectSingleFace := Face [1, 0]\<rparr>)) =
     [\<lparr>user_id = ''alice'', row_roll_number = ''R1'', student_name = ''Alice'',
        row_email = ''alice@example.org'', confidence_score = 0.90, status = ''present'',
        face_vector = [1, 0], image_url = Some ''https://storage.example/signed''\<rparr>] \<and>
   map forget_vector (handleCapture (sample_camera\<lparr>detectSingleFace := Face [1, 0]\<rparr>)) =
   map forget_vector (handleCapture (sample_camera\<lparr>detectSingleFace := Face [0, 1]\<rparr>))"
  using descriptor_ignored [of
      "\<lparr>user_id = ''alice'', row_roll_number = ''R1'', student_name = ''Alice'',
        row_email = ''alice@example.org'', confidence_score = 0.90, status = ''present'',
        face_vector = [1, 0], image_url = Some ''https://storage.example/signed''\<rparr>"
      "Resolved ()" sample_camera "[1, 0]" "[1, 0]" "[0, 1]"]
  by (simp add: run_defs sample_camera_def Let_def)

text \<open>
  Claim C1 at a concrete capture: the encoded frame is a 50 by 50 JPEG, which the
  validation function rejects as too small. The attendance page never invokes the
  validation function; it uploads the frame to storage, inserts the attendance row and
  reaches the success status.
\<close>

theorem no_validation_counterexample:
  "fst (serve (sample_platform (sample_jfif 50 50)) (sample_request ''jpeg'' ''alice'')) =
     Invalid ''Image too small. Minimum dimensions: 100x100'' \<and>
   toBlob sample_camera = Some (sample_jfif 50 50) \<and>
   filter (is_invocation ''validate-face-image'') (handleCapture sample_camera) = [] \<and>
   filter is_storage_write (handleCapture sample_camera) =
     [StorageUpload (''alice/R1_'' @ decimal 1700000000000 @ ''.jpg'') (sample_jfif 50 50)
        (Resolved ())] \<and>
   length (records_created (handleCapture sample_camera)) = 1 \<and>
   statuses (handleCapture sample_camera) = [Success, Completed]"
proof -
  have "fst (serve (sample_platform (sample_jfif 50 50)) (sample_request ''jpeg'' ''alice'')) =
     respond (validate (sample_jfif 50 50))"
    by (rule serve_decoded) (simp_all add: sample_method sample_decoded)
  then have "fst (serve (sample_platform (sample_jfif 50 50)) (sample_request ''jpeg'' ''alice'')) =
     Invalid ''Image too small. Minimum dimensions: 100x100''"
    by (simp add: sample_jfif_50 respond_def)
  then show ?thesis
    by (simp add: run_defs sample_camera_def Let_def)
qed

subsection \<open>The enrollment upload\<close>

lemma upload_photo_invalid:
  assumes "validation_failed (invoke_validate env i)"
  shows "upload_photo env uid i photo =
    ([validate_call env uid i photo], Inl (validation_message (invoke_validate env i)))"
  using assms by (simp add: upload_photo_def validate_call_def Let_def)

lemma upload_photo_head:
  "\<exists>rest. fst (upload_photo env uid i photo) = validate_call env uid i photo # rest \<and>
     (\<forall>n body r. FunctionsInvoke n body r \<notin> set rest) \<and>
     (\<forall>u us r. ProfilesUpdate u us r \<notin> set rest)"
  by (auto simp: upload_photo_def validate_call_def Let_def file_path_def
      split: sum.splits outcome.splits)

lemma upload_photo_write:
  assumes "StorageUpload path blob r \<in> set (fst (upload_photo env uid i photo))"
  shows "\<not> validation_failed (invoke_validate env i) \<and> path = file_path env uid i \<and>
         fetch_blob env i = Inr blob"
  using assms
  by (auto simp: upload_photo_def Let_def file_path_def split: sum.splits outcome.splits if_splits)

lemma upload_loop_write:
  "StorageUpload path blob r \<in> set (fst (upload_loop env uid i ps)) \<Longrightarrow>
     \<exists>k. i \<le> k \<and> k < i + length ps \<and> \<not> validation_failed (invoke_validate env k) \<and>
       path = file_path env uid k \<and> fetch_blob env k = Inr blob"
proof (induction ps arbitrary: i)
  case Nil
  then show ?case by simp
next
  case (Cons photo rest)
  obtain evs res where s: "upload_photo env uid i photo = (evs, res)"
    by (cases "upload_photo env uid i photo")
  obtain evs' res' where l: "upload_loop env uid (i + 1) rest = (evs', res')"
    by (cases "upload_loop env uid (i + 1) rest")
  from Cons.prems s l have "StorageUpload path blob r \<in> set evs \<or> StorageUpload path blob r \<in> set evs'"
    by (auto split: sum.splits)
  then show ?case
  proof
    assume "StorageUpload path blob r \<in> set evs"
    then have "\<not> validation_failed (invoke_validate env i) \<and> path = file_path env uid i \<and>
         fetch_blob env i = Inr blob"
      using upload_photo_write [of path blob r env uid i photo] s by simp
    then show ?thesis by (intro exI [of _ i]) simp
  next
    assume "StorageUpload path blob r \<in> set evs'"
    then obtain k where "i + 1 \<le> k" "k < i + 1 + length rest"
      "\<not> validation_failed (invoke_validate env k)" "path = file_path env uid k"
      "fetch_blob env k = Inr blob"
      using Cons.IH [of "i + 1"] l by auto
    then show ?thesis by (intro exI [of _ k]) simp
  qed
qed

lemma upload_loop_abort:
  assumes "upload_loop env uid i ps = (evs, Inr urls)"
    and "validation_failed (invoke_validate env (i + length ps))"
  shows "upload_loop env uid i (ps @ photo # qs) =
    (evs @ [validate_call env uid (i + length ps) photo],
     Inl (validation_message (invoke_validate env (i + length ps))))"
  using assms
proof (induction ps arbitrary: i evs urls)
  case Nil
  then show ?case by (simp add: upload_photo_invalid)
next
  case (Cons p ps)
  obtain e1 r1 where s: "upload_photo env uid i p = (e1, r1)"
    by (cases "upload_photo env uid i p")
  obtain e2 r2 where l: "upload_loop env uid (i + 1) ps = (e2, r2)"
    by (cases "upload_loop env uid (i + 1) ps")
  from Cons.prems(1) s l obtain url urls' where
    r: "r1 = Inr url" "r2 = Inr urls'" "evs = e1 @ e2"
    by (auto split: sum.splits)
  have "upload_loop env uid (i + 1) (ps @ photo # qs) =
    (e2 @ [validate_call env uid (i + 1 + length ps) photo],
     Inl (validation_message (invoke_validate env (i + 1 + length ps))))"
    using Cons.IH [of "i + 1" e2 urls'] l r(2) Cons.prems(2) by simp
  then show ?case using s r by simp
qed

lemma handleCapture_no_validation:
  "filter (is_invocation ''validate-face-image'') (handleCapture env) = []"
  by (simp add: handleCapture_def sendAttendance_no_validation split: detection.splits)

lemma upload_failed_events:
  "StorageUpload path blob r \<notin> set (upload_failed m)"
  by (simp add: upload_failed_def)

lemma uploadPhotos_write:
  assumes "StorageUpload path blob r \<in> set (uploadPhotos env uid)"
  shows "StorageUpload path blob r \<in> set (fst (upload_loop env uid 0 (photos env)))"
proof -
  obtain evs res where l: "upload_loop env uid 0 (photos env) = (evs, res)"
    by (cases "upload_loop env uid 0 (photos env)")
  have "StorageUpload path blob r \<in> set evs"
    using assms l upload_failed_events
    by (auto simp: uploadPhotos_def split: if_splits sum.splits outcome.splits)
  then show ?thesis by (simp add: l)
qed

text \<open>
  Claim C1, as amended. The attendance page (\<open>handleCapture\<close>, \<open>sendAttendance\<close>) never
  invokes \<open>validate-face-image\<close>. In the enrollment upload (\<open>uploadPhotos\<close>) every
  iteration starts with the validation call for its photo. When the photos before some
  photo went through and the validation of that photo fails (an error, no data, or
  \<open>valid: false\<close>), the run consists of the events of the earlier photos, that validation
  call, the "Upload Failed" toast and \<open>setUploading(false)\<close>: nothing is written to storage
  for that photo or a later one, and the profile is not updated. Every upload to storage
  made by \<open>uploadPhotos\<close> is of a photo whose validation succeeded.
\<close>

theorem validation_before_write:
  "filter (is_invocation ''validate-face-image'') (sendAttendance cam vector) = [] \<and>
   filter (is_invocation ''validate-face-image'') (handleCapture cam) = [] \<and>
   (\<exists>rest. fst (upload_photo env uid i p) = validate_call env uid i p # rest) \<and>
   (photos env = ps @ photo # qs \<and> upload_loop env uid 0 ps = (evs, Inr urls) \<and>
    validation_failed (invoke_validate env (length ps)) \<longrightarrow>
      uploadPhotos env uid =
        SetUploading True # evs @ [validate_call env uid (length ps) photo]
          @ upload_failed (validation_message (invoke_validate env (length ps)))) \<and>
   (StorageUpload path blob r \<in> set (uploadPhotos env uid) \<longrightarrow>
      (\<exists>k < length (photos env). \<not> validation_failed (invoke_validate env k) \<and>
          path = file_path env uid k \<and> fetch_blob env k = Inr blob))"
proof (intro conjI impI)
  show "filter (is_invocation ''validate-face-image'') (sendAttendance cam vector) = []"
    by (rule sendAttendance_no_validation)
  show "filter (is_invocation ''validate-face-image'') (handleCapture cam) = []"
    by (rule handleCapture_no_validation)
  show "\<exists>rest. fst (upload_photo env uid i p) = validate_call env uid i p # rest"
    using upload_photo_head [of env uid i p] by blast
next
  assume a: "photos env = ps @ photo # qs \<and> upload_loop env uid 0 ps = (evs, Inr urls) \<and>
    validation_failed (invoke_validate env (length ps))"
  then have "upload_loop env uid 0 (photos env) =
    (evs @ [validate_call env uid (length ps) photo],
     Inl (validation_message (invoke_validate env (length ps))))"
    using upload_loop_abort [of env uid 0 ps evs urls photo qs] by simp
  then show "uploadPhotos env uid =
        SetUploading True # evs @ [validate_call env uid (length ps) photo]
          @ upload_failed (validation_message (invoke_validate env (length ps)))"
    using a by (simp add: uploadPhotos_def)
next
  assume "StorageUpload path blob r \<in> set (uploadPhotos env uid)"
  then have "StorageUpload path blob r \<in> set (fst (upload_loop env uid 0 (photos env)))"
    by (rule uploadPhotos_write)
  then show "\<exists>k < length (photos env). \<not> validation_failed (invoke_validate env k) \<and>
          path = file_path env uid k \<and> fetch_blob env k = Inr blob"
    using upload_loop_write [of path blob r env uid 0 "photos env"] by auto
qed

lemma sample_enrollment_first:
  "upload_loop sample_enrollment ''alice'' 0 [data_url ''jpeg'' ''AAAA''] =
     ([validate_call sample_enrollment ''alice'' 0 (data_url ''jpeg'' ''AAAA''),
       StorageUpload (file_path sample_enrollment ''alice'' 0) (sample_jfif 200 200) (Resolved ()),
       StorageCreateSignedUrl (file_path sample_enrollment ''alice'' 0) 31536000
         (Resolved ''https://storage.example/signed'')],
      Inr [''https://storage.example/signed''])"
  by (simp add: upload_photo_def validate_call_def file_path_def sample_enrollment_def Let_def)

theorem validation_before_write_witness:
  "uploadPhotos sample_enrollment ''alice'' =
     [SetUploading True,
      validate_call sample_enrollment ''alice'' 0 (data_url ''jpeg'' ''AAAA''),
      StorageUpload (file_path sample_enrollment ''alice'' 0) (sample_jfif 200 200) (Resolved ()),
      StorageCreateSignedUrl (file_path sample_enrollment ''alice'' 0) 31536000
        (Resolved ''https://storage.example/signed''),
      validate_call sample_enrollment ''alice'' 1 (data_url ''jpeg'' ''BBBB''),
      Toast ''Upload Failed'' ''Edge Function returned a non-2xx status code'',
      SetUploading False] \<and>
   validation_failed (invoke_validate sample_enrollment 1) \<and>
   \<not> validation_failed (invoke_validate sample_enrollment 0)"
proof -
  have p: "photos sample_enrollment = [data_url ''jpeg'' ''AAAA''] @ data_url ''jpeg'' ''BBBB'' # []"
    by (simp add: sample_enrollment_def)
  have f: "validation_failed (invoke_validate sample_enrollment (length [data_url ''jpeg'' ''AAAA'']))"
    by (simp add: sample_enrollment_def)
  have m: "validation_message (invoke_validate sample_enrollment 1)
      = ''Edge Function returned a non-2xx status code''"
    by (simp add: sample_enrollment_def)
  have g: "\<not> validation_failed (invoke_validate sample_enrollment 0)"
    by (simp add: sample_enrollment_def)
  show ?thesis
    using validation_before_write [where env = sample_enrollment and uid = "''alice''"
        and ps = "[data_url ''jpeg'' ''AAAA'']" and photo = "data_url ''jpeg'' ''BBBB''"
        and qs = "[]" and urls = "[''https://storage.example/signed'']"
        and evs = "fst (upload_loop sample_enrollment ''alice'' 0 [data_url ''jpeg'' ''AAAA''])"]
      p f g m sample_enrollment_first
    by (simp add: upload_failed_def)
qed

end
